theory Spec2Isabelle
  imports Complex_Main "HOL-Library.AList" "HOL-Library.Multiset" "HOL-Library.Product_Lexorder"
begin

section \<open>Python values used by the program\<close>

text \<open>
  The exceptions that the modelled code can meet. \<open>ParseError\<close> is
  \<open>xml.etree.ElementTree.ParseError\<close>; the others are Python's built-in exceptions.
  All of them are subclasses of \<open>Exception\<close>.
\<close>

datatype pyerror = ValueError | TypeError | KeyError | LookupError | ParseError

subsection \<open>Floats: IEEE 754 binary64\<close>

text \<open>
  A Python float is a binary64 value. A finite value is kept as the rational number it
  denotes; the negative zero, the two infinities and the not-a-number are separate values.
  \<open>Finite 0\<close> is the positive zero.
\<close>

datatype pyfloat = Finite rat | NegZero | PosInf | NegInf | NaN

function ipow :: "int \<Rightarrow> int \<Rightarrow> int" where
  "ipow b k = (if k \<le> 0 then 1
     else if even k then ipow b (k div 2) * ipow b (k div 2)
     else b * ipow b (k - 1))"
  by pat_completeness auto
termination
  by (relation "measure (\<lambda>(b, k). nat k)") auto

declare ipow.simps [simp del]

definition rpow :: "int \<Rightarrow> int \<Rightarrow> rat" where
  "rpow b k = (if 0 \<le> k then of_int (ipow b k) else 1 / of_int (ipow b (- k)))"

definition round_half_even :: "rat \<Rightarrow> int" where
  "round_half_even q =
     (let f = \<lfloor>q\<rfloor>; r = q - of_int f
      in if r < 1 / 2 then f else if 1 / 2 < r then f + 1 else if even f then f else f + 1)"

function bit_length :: "int \<Rightarrow> int" where
  "bit_length n = (if n \<le> 0 then 0 else 1 + bit_length (n div 2))"
  by pat_completeness auto
termination
  by (relation "measure nat") auto

declare bit_length.simps [simp del]

text \<open>\<open>ilog2 a\<close> is the integer \<open>k\<close> with \<open>2^k \<le> a < 2^(k+1)\<close>, for a positive \<open>a\<close>.\<close>

definition ilog2 :: "rat \<Rightarrow> int" where
  "ilog2 a = (if 1 \<le> a then bit_length \<lfloor>a\<rfloor> - 1 else - bit_length (\<lceil>1 / a\<rceil> - 1))"

text \<open>
  Rounding of a rational to the nearest binary64 value, ties to the even significand:
  53 significant bits, the smallest exponent of a unit in the last place is \<open>-1074\<close>
  (subnormal numbers), and a result of \<open>2^1024\<close> or more overflows to an infinity.
\<close>

definition float_of_rat :: "rat \<Rightarrow> pyfloat" where
  "float_of_rat q =
     (if q = 0 then Finite 0
      else let a = \<bar>q\<bar>;
               e = max (ilog2 a - 52) (- 1074);
               r = of_int (round_half_even (a / rpow 2 e)) * rpow 2 e
           in if rpow 2 1024 \<le> r then (if q < 0 then NegInf else PosInf)
              else if r = 0 then (if q < 0 then NegZero else Finite 0)
              else Finite (if q < 0 then - r else r))"

fun rat_of_float :: "pyfloat \<Rightarrow> rat" where
  "rat_of_float (Finite q) = q"
| "rat_of_float _ = 0"

fun is_finite :: "pyfloat \<Rightarrow> bool" where
  "is_finite (Finite q) = True"
| "is_finite NegZero = True"
| "is_finite _ = False"

fun float_neg :: "pyfloat \<Rightarrow> pyfloat" where
  "float_neg (Finite q) = (if q = 0 then NegZero else Finite (- q))"
| "float_neg NegZero = Finite 0"
| "float_neg PosInf = NegInf"
| "float_neg NegInf = PosInf"
| "float_neg NaN = NaN"

fun float_abs :: "pyfloat \<Rightarrow> pyfloat" where
  "float_abs (Finite q) = Finite \<bar>q\<bar>"
| "float_abs NegZero = Finite 0"
| "float_abs PosInf = PosInf"
| "float_abs NegInf = PosInf"
| "float_abs NaN = NaN"

text \<open>The binary64 subtraction \<open>x - y\<close>, rounded to nearest.\<close>

definition float_sub :: "pyfloat \<Rightarrow> pyfloat \<Rightarrow> pyfloat" where
  "float_sub x y =
     (if x = NaN \<or> y = NaN then NaN
      else if x = PosInf then (if y = PosInf then NaN else PosInf)
      else if x = NegInf then (if y = NegInf then NaN else NegInf)
      else if y = PosInf then NegInf
      else if y = NegInf then PosInf
      else if rat_of_float x = rat_of_float y
        then (if x = NegZero \<and> y = Finite 0 then NegZero else Finite 0)
      else float_of_rat (rat_of_float x - rat_of_float y))"

text \<open>The comparison \<open>x < y\<close>: false whenever an operand is not a number.\<close>

definition float_lt :: "pyfloat \<Rightarrow> pyfloat \<Rightarrow> bool" where
  "float_lt x y =
     (if x = NaN \<or> y = NaN then False
      else if x = PosInf \<or> y = NegInf then False
      else if x = NegInf \<or> y = PosInf then True
      else rat_of_float x < rat_of_float y)"

subsection \<open>Decimal text of numbers\<close>

definition digit_char :: "int \<Rightarrow> char" where
  "digit_char d = char_of (48 + d)"

function digits_of :: "int \<Rightarrow> string" where
  "digits_of n = (if n < 10 then [digit_char n] else digits_of (n div 10) @ [digit_char (n mod 10)])"
  by pat_completeness auto
termination
  by (relation "measure nat") auto

declare digits_of.simps [simp del]

text \<open>\<open>str(n)\<close> for an integer.\<close>

definition str_int :: "int \<Rightarrow> string" where
  "str_int n = (if n < 0 then CHR ''-'' # digits_of (- n) else digits_of n)"

text \<open>The text of \<open>n / 1000\<close> with three decimals, for a natural number \<open>n\<close> of thousandths.\<close>

definition fixed3 :: "int \<Rightarrow> string" where
  "fixed3 n = digits_of (n div 1000) @ CHR ''.'' #
     [digit_char (n div 100 mod 10), digit_char (n div 10 mod 10), digit_char (n mod 10)]"

text \<open>
  The format \<open>f"{x:.3f}"\<close>: the exact value of the float rounded to three decimals
  (to nearest, ties to even), the sign kept also when the digits are all zero; an
  infinity or a not-a-number is written by name.
\<close>

fun fmt3 :: "pyfloat \<Rightarrow> string" where
  "fmt3 (Finite q) =
     (if q < 0 then CHR ''-'' # fixed3 (round_half_even (\<bar>q\<bar> * 1000))
      else fixed3 (round_half_even (\<bar>q\<bar> * 1000)))"
| "fmt3 NegZero = ''-0.000''"
| "fmt3 PosInf = ''inf''"
| "fmt3 NegInf = ''-inf''"
| "fmt3 NaN = ''nan''"

subsection \<open>\<open>float(s)\<close> on a string\<close>

text \<open>
  Characters are code points below 256. \<open>float\<close> strips white space at both ends
  (tab to carriage return, the space, and the two spaces U+0085 and U+00A0),
  accepts single underscores between digits, an optional sign, and then a decimal number
  with an optional exponent, or one of \<open>inf\<close>, \<open>infinity\<close>, \<open>nan\<close> in any case.
  Everything else raises \<open>ValueError\<close>.
\<close>

definition is_space :: "char \<Rightarrow> bool" where
  "is_space c = (let n = (of_char c :: int)
     in (9 \<le> n \<and> n \<le> 13) \<or> n = 32 \<or> n = 133 \<or> n = 160)"

definition strip :: "string \<Rightarrow> string" where
  "strip s = rev (dropWhile is_space (rev (dropWhile is_space s)))"

definition is_digit :: "char \<Rightarrow> bool" where
  "is_digit c = (48 \<le> (of_char c :: int) \<and> (of_char c :: int) \<le> 57)"

definition int_of_digits :: "string \<Rightarrow> int" where
  "int_of_digits ds = foldl (\<lambda>n c. 10 * n + (of_char c - 48)) 0 ds"

definition lower :: "char \<Rightarrow> char" where
  "lower c = (if 65 \<le> (of_char c :: int) \<and> (of_char c :: int) \<le> 90
     then char_of ((of_char c :: int) + 32) else c)"

text \<open>An underscore must stand between two digits (\<open>prev\<close> is the character before).\<close>

fun underscores_ok :: "char \<Rightarrow> string \<Rightarrow> bool" where
  "underscores_ok prev [] = (prev \<noteq> CHR ''_'')"
| "underscores_ok prev (c # cs) =
     ((if c = CHR ''_'' then is_digit prev
       else if prev = CHR ''_'' then is_digit c else True)
      \<and> underscores_ok c cs)"

definition split_sign :: "string \<Rightarrow> bool \<times> string" where
  "split_sign s =
     (case s of
        [] \<Rightarrow> (False, [])
      | c # cs \<Rightarrow> if c = CHR ''-'' then (True, cs)
                 else if c = CHR ''+'' then (False, cs) else (False, s))"

definition inf_or_nan :: "string \<Rightarrow> pyfloat option" where
  "inf_or_nan s =
     (let l = map lower s
      in if l = ''inf'' \<or> l = ''infinity'' then Some PosInf
         else if l = ''nan'' then Some NaN else None)"

definition parse_exponent :: "string \<Rightarrow> int option" where
  "parse_exponent r =
     (case r of
        [] \<Rightarrow> Some 0
      | c # cs \<Rightarrow>
          if c = CHR ''e'' \<or> c = CHR ''E'' then
            (let (neg, ds) = split_sign cs
             in if ds \<noteq> [] \<and> list_all is_digit ds
                then Some (if neg then - int_of_digits ds else int_of_digits ds)
                else None)
          else None)"

definition parse_decimal :: "string \<Rightarrow> rat option" where
  "parse_decimal s =
     (let ip = takeWhile is_digit s;
          r1 = dropWhile is_digit s;
          (fp, r2) = (case r1 of
                        [] \<Rightarrow> ([], [])
                      | c # cs \<Rightarrow> if c = CHR ''.''
                                 then (takeWhile is_digit cs, dropWhile is_digit cs)
                                 else ([], r1))
      in if ip = [] \<and> fp = [] then None
         else (case parse_exponent r2 of
                 None \<Rightarrow> None
               | Some ex \<Rightarrow>
                   Some (of_int (int_of_digits (ip @ fp)) * rpow 10 (ex - int (length fp)))))"

definition float_str :: "string \<Rightarrow> pyerror + pyfloat" where
  "float_str s0 =
     (let s = strip s0
      in if \<not> underscores_ok (CHR 0x00) s then Inl ValueError
         else let (neg, u) = split_sign (filter (\<lambda>c. c \<noteq> CHR ''_'') s)
              in (case inf_or_nan u of
                    Some x \<Rightarrow> Inr (if neg then float_neg x else x)
                  | None \<Rightarrow>
                      (case parse_decimal u of
                         None \<Rightarrow> Inl ValueError
                       | Some q \<Rightarrow>
                           Inr (if neg then float_neg (float_of_rat q) else float_of_rat q))))"

subsection \<open>Dynamically typed values and dictionaries\<close>

text \<open>
  A \<open>datetime\<close> as \<open>datetime.fromisoformat\<close> returns it. \<open>utcoffset\<close> is \<open>None\<close> for a naive
  date, which the text of a \<open>Fecha\<close> without offset gives, and the offset from UTC in
  microseconds for an aware one, which a text that ends in \<open>+HH:MM\<close>, \<open>-HH:MM\<close> or \<open>Z\<close> gives.
\<close>

record datetime =
  year :: int
  month :: int
  day :: int
  hour :: int
  minute :: int
  second :: int
  microsecond :: int
  utcoffset :: "int option"

datatype pyval = PNone | PStr string | PDateTime datetime | PFloat pyfloat

text \<open>
  A \<open>dict\<close> with string keys keeps its keys in insertion order: an association list
  with distinct keys. \<open>d[k] = v\<close> is \<open>AList.update k v d\<close>: it replaces the value in
  place, or appends the new key.
\<close>

type_synonym pydict = "(string \<times> pyval) list"

definition dict_get :: "pydict \<Rightarrow> string \<Rightarrow> pyval \<Rightarrow> pyval" where
  \<comment> \<open>\<open>d.get(k, default)\<close>\<close>
  "dict_get d k dflt = (case map_of d k of None \<Rightarrow> dflt | Some v \<Rightarrow> v)"

definition dict_getitem :: "pydict \<Rightarrow> string \<Rightarrow> pyerror + pyval" where
  \<comment> \<open>\<open>d[k]\<close>\<close>
  "dict_getitem d k = (case map_of d k of None \<Rightarrow> Inl KeyError | Some v \<Rightarrow> Inr v)"

definition dict_setitem :: "pydict \<Rightarrow> string \<Rightarrow> pyval \<Rightarrow> pydict" where
  \<comment> \<open>\<open>d[k] = v\<close>\<close>
  "dict_setitem d k v = AList.update k v d"

text \<open>Truth value of an object, and \<open>a or b\<close>.\<close>

fun truthy :: "pyval \<Rightarrow> bool" where
  "truthy PNone = False"
| "truthy (PStr s) = (s \<noteq> [])"
| "truthy (PDateTime d) = True"
| "truthy (PFloat x) = (x \<noteq> Finite 0 \<and> x \<noteq> NegZero)"

definition py_or :: "pyval \<Rightarrow> pyval \<Rightarrow> pyval" where
  "py_or a b = (if truthy a then a else b)"

text \<open>\<open>float(v)\<close>: \<open>TypeError\<close> on an object that is neither text nor a number.\<close>

fun py_float :: "pyval \<Rightarrow> pyerror + pyfloat" where
  "py_float (PStr s) = float_str s"
| "py_float (PFloat x) = Inr x"
| "py_float PNone = Inl TypeError"
| "py_float (PDateTime d) = Inl TypeError"

section \<open>utils.py\<close>

definition parse_float :: "pyval \<Rightarrow> pyerror + pyfloat" where
  "parse_float v =
     (case py_float v of
        Inr x \<Rightarrow> Inr x
      | Inl e \<Rightarrow> if e = ValueError \<or> e = TypeError then Inr (Finite 0) else Inl e)"

definition format_and_compare_liters :: "pyval \<Rightarrow> pyval \<Rightarrow> pyerror + (string \<times> string \<times> string)" where
  "format_and_compare_liters facturada_str transportada_str =
     (case parse_float facturada_str of
        Inl e \<Rightarrow> Inl e
      | Inr facturada_val \<Rightarrow>
          (case parse_float transportada_str of
             Inl e \<Rightarrow> Inl e
           | Inr transportada_val \<Rightarrow>
               Inr (fmt3 facturada_val, fmt3 transportada_val,
                    if float_lt (float_abs (float_sub facturada_val transportada_val))
                         (float_of_rat (1 / 1000000000))
                    then ''Iguales'' else ''Diferentes'')))"

definition map_clave_to_combustible :: "string \<Rightarrow> pyval" where
  "map_clave_to_combustible clave_prod_serv =
     (case map_of [(''15101514'', ''magna''), (''15101515'', ''premium''), (''15101505'', ''diesel'')]
             clave_prod_serv of
        None \<Rightarrow> PNone
      | Some c \<Rightarrow> PStr c)"

section \<open>xml_processor.py\<close>

subsection \<open>ElementTree\<close>

text \<open>
  An element has a tag (the namespace URI and the local name: ElementTree's
  \<open>{uri}local\<close>), a dictionary of attributes and its child elements in document order.
  \<open>ET.parse\<close> returns the root element of a file that it can read. It raises
  \<open>ParseError\<close> on a file that is not well-formed XML, \<open>LookupError\<close> on a file that
  declares an encoding which Python does not know, and \<open>ValueError\<close> on a file that
  declares a multi-byte encoding such as Shift_JIS or Big5, well-formed or not. The
  functions below take the file where the source takes its path; the program never
  writes to it.
\<close>

datatype element =
  Element (tag: "string \<times> string") (attrib: "(string \<times> string) list") (children: "element list")

datatype xml_file = NotWellFormed | UnknownEncoding | MultiByteEncoding | WellFormed element

definition ET_parse :: "xml_file \<Rightarrow> pyerror + element" where
  "ET_parse file =
     (case file of
        NotWellFormed \<Rightarrow> Inl ParseError
      | UnknownEncoding \<Rightarrow> Inl LookupError
      | MultiByteEncoding \<Rightarrow> Inl ValueError
      | WellFormed root_el \<Rightarrow> Inr root_el)"

text \<open>\<open>e.iter()\<close>: the element and all elements below it, in document order.\<close>

fun iter :: "element \<Rightarrow> element list" where
  "iter (Element t a cs) = Element t a cs # concat (map iter cs)"

text \<open>
  \<open>e.findall('.//p:Name', namespaces)\<close> and \<open>e.find('.//p:Name', namespaces)\<close>: the
  elements strictly below \<open>e\<close> with the tag \<open>{uri of p}Name\<close>, and the first of them.
\<close>

definition ET_findall :: "string \<times> string \<Rightarrow> element \<Rightarrow> element list" where
  "ET_findall q e = filter (\<lambda>x. tag x = q) (concat (map iter (children e)))"

definition ET_find :: "string \<times> string \<Rightarrow> element \<Rightarrow> element option" where
  "ET_find q e = (case ET_findall q e of [] \<Rightarrow> None | x # xs \<Rightarrow> Some x)"

definition attrib_get :: "element \<Rightarrow> string \<Rightarrow> string \<Rightarrow> string" where
  \<comment> \<open>\<open>e.attrib.get(k, default)\<close>\<close>
  "attrib_get e k dflt = (case map_of (attrib e) k of None \<Rightarrow> dflt | Some v \<Rightarrow> v)"

definition NS_CFDI :: string where
  "NS_CFDI = ''http://www.sat.gob.mx/cfd/4''"

definition NS_CartaPorte20 :: string where
  "NS_CartaPorte20 = ''http://www.sat.gob.mx/CartaPorte20''"

definition NS_CartaPorte30 :: string where
  "NS_CartaPorte30 = ''http://www.sat.gob.mx/CartaPorte30''"

definition NS_CartaPorte31 :: string where
  "NS_CartaPorte31 = ''http://www.sat.gob.mx/CartaPorte31''"

subsection \<open>The functions of the module\<close>

definition identify_format :: "xml_file \<Rightarrow> pyerror + string option" where
  "identify_format file =
     (case ET_parse file of
        Inl e \<Rightarrow> Inl e
      | Inr root_el \<Rightarrow>
          Inr (if ET_findall (NS_CartaPorte20, ''Mercancia'') root_el \<noteq> [] then Some ''format1''
               else if ET_findall (NS_CartaPorte30, ''Mercancia'') root_el \<noteq> [] then Some ''format2''
               else if ET_findall (NS_CartaPorte31, ''Mercancia'') root_el \<noteq> [] then Some ''format31''
               else None))"

text \<open>
  \<open>datetime.fromisoformat\<close> is a parameter: which texts it accepts depends on the Python
  version. On a string it returns a \<open>datetime\<close> or raises \<open>ValueError\<close>, which is the
  value \<open>None\<close> here.
\<close>

definition extract_common_data :: "(string \<Rightarrow> datetime option) \<Rightarrow> element \<Rightarrow> pydict" where
  "extract_common_data fromisoformat root_el =
     (let fecha_str = attrib_get root_el ''Fecha'' '''';
          fecha_dt = (case fromisoformat fecha_str of None \<Rightarrow> PNone | Some d \<Rightarrow> PDateTime d);
          periodo = (case fecha_dt of PDateTime d \<Rightarrow> str_int (month d) | _ \<Rightarrow> '''')
      in [(''FechaEmision'', fecha_dt),
          (''Periodo'', PStr periodo),
          (''Serie'', PStr (attrib_get root_el ''Serie'' '''')),
          (''Folio'', PStr (attrib_get root_el ''Folio'' '''')),
          (''Clave SAT'', PNone),
          (''Cantidad Litros Facturada'', PNone),
          (''Litros Transportada'', PNone),
          (''Combustible'', PNone),
          (''Comparacion'', PStr '''')])"

text \<open>
  The billed quantity, which the three extractors read with the same text, and the
  three assignments that end each of them.
\<close>

definition set_facturada :: "element \<Rightarrow> pydict \<Rightarrow> pydict" where
  "set_facturada root_el data =
     (case ET_find (NS_CFDI, ''Concepto'') root_el of
        None \<Rightarrow> data
      | Some concepto \<Rightarrow>
          dict_setitem data ''Cantidad Litros Facturada'' (PStr (attrib_get concepto ''Cantidad'' '''')))"

definition store_normalised :: "pydict \<Rightarrow> string \<times> string \<times> string \<Rightarrow> pydict" where
  "store_normalised data r =
     (case r of (fac_fmt, trans_fmt, comparacion) \<Rightarrow>
        dict_setitem
          (dict_setitem (dict_setitem data ''Cantidad Litros Facturada'' (PStr fac_fmt))
             ''Litros Transportada'' (PStr trans_fmt))
          ''Comparacion'' (PStr comparacion))"

definition process_xml_format1 :: "(string \<Rightarrow> datetime option) \<Rightarrow> xml_file \<Rightarrow> pyerror + pydict" where
  "process_xml_format1 fromisoformat file =
     (case ET_parse file of
        Inl e \<Rightarrow> Inl e
      | Inr root_el \<Rightarrow>
          (let data = extract_common_data fromisoformat root_el;
               data = set_facturada root_el data;
               data =
                 (case ET_find (NS_CartaPorte20, ''Mercancia'') root_el of
                    None \<Rightarrow> data
                  | Some mercancia \<Rightarrow>
                      (let clave_prod_serv = attrib_get mercancia ''BienesTransp'' '''';
                           data = dict_setitem data ''Clave SAT'' (PStr clave_prod_serv);
                           data = dict_setitem data ''Litros Transportada''
                                    (PStr (attrib_get mercancia ''Cantidad'' ''''))
                       in dict_setitem data ''Combustible'' (map_clave_to_combustible clave_prod_serv)))
           in (case dict_getitem data ''Cantidad Litros Facturada'' of
                 Inl e \<Rightarrow> Inl e
               | Inr facturada \<Rightarrow>
                   (case dict_getitem data ''Litros Transportada'' of
                      Inl e \<Rightarrow> Inl e
                    | Inr transportada \<Rightarrow>
                        (case format_and_compare_liters
                                (py_or facturada (PStr ''0'')) (py_or transportada (PStr ''0'')) of
                           Inl e \<Rightarrow> Inl e
                         | Inr r \<Rightarrow> Inr (store_normalised data r))))))"

definition process_xml_format2 :: "(string \<Rightarrow> datetime option) \<Rightarrow> xml_file \<Rightarrow> pyerror + pydict" where
  "process_xml_format2 fromisoformat file =
     (case ET_parse file of
        Inl e \<Rightarrow> Inl e
      | Inr root_el \<Rightarrow>
          (let data = extract_common_data fromisoformat root_el;
               data = set_facturada root_el data;
               data =
                 (case ET_find (NS_CartaPorte30, ''Mercancia'') root_el of
                    None \<Rightarrow> data
                  | Some mercancia \<Rightarrow>
                      (let clave_prod_serv = attrib_get mercancia ''BienesTransp'' '''';
                           data = dict_setitem data ''Clave SAT'' (PStr clave_prod_serv);
                           data =
                             (case ET_find (NS_CartaPorte30, ''CantidadTransporta'') mercancia of
                                Some cantidad_transporta \<Rightarrow>
                                  dict_setitem data ''Litros Transportada''
                                    (PStr (attrib_get cantidad_transporta ''Cantidad'' ''''))
                              | None \<Rightarrow>
                                  dict_setitem data ''Litros Transportada''
                                    (PStr (attrib_get mercancia ''Cantidad'' '''')))
                       in dict_setitem data ''Combustible'' (map_clave_to_combustible clave_prod_serv)))
           in (case format_and_compare_liters
                     (dict_get data ''Cantidad Litros Facturada'' (PStr ''0''))
                     (dict_get data ''Litros Transportada'' (PStr ''0'')) of
                 Inl e \<Rightarrow> Inl e
               | Inr r \<Rightarrow> Inr (store_normalised data r))))"

definition process_xml_format31 :: "(string \<Rightarrow> datetime option) \<Rightarrow> xml_file \<Rightarrow> pyerror + pydict" where
  "process_xml_format31 fromisoformat file =
     (case ET_parse file of
        Inl e \<Rightarrow> Inl e
      | Inr root_el \<Rightarrow>
          (let data = extract_common_data fromisoformat root_el;
               data = set_facturada root_el data;
               data =
                 (case ET_find (NS_CartaPorte31, ''Mercancia'') root_el of
                    None \<Rightarrow> data
                  | Some mercancia \<Rightarrow>
                      (let clave_prod_serv = attrib_get mercancia ''BienesTransp'' '''';
                           data = dict_setitem data ''Clave SAT'' (PStr clave_prod_serv);
                           data =
                             (case ET_find (NS_CartaPorte31, ''CantidadTransporta'') mercancia of
                                Some cantidad_transporta_node \<Rightarrow>
                                  dict_setitem data ''Litros Transportada''
                                    (PStr (attrib_get cantidad_transporta_node ''Cantidad'' ''''))
                              | None \<Rightarrow>
                                  dict_setitem data ''Litros Transportada''
                                    (PStr (attrib_get mercancia ''Cantidad'' '''')))
                       in dict_setitem data ''Combustible'' (map_clave_to_combustible clave_prod_serv)))
           in (case format_and_compare_liters
                     (dict_get data ''Cantidad Litros Facturada'' (PStr ''0''))
                     (dict_get data ''Litros Transportada'' (PStr ''0'')) of
                 Inl e \<Rightarrow> Inl e
               | Inr r \<Rightarrow> Inr (store_normalised data r))))"

definition process_file_based_on_format ::
  "(string \<Rightarrow> datetime option) \<Rightarrow> xml_file \<Rightarrow> pyerror + pydict option" where
  "process_file_based_on_format fromisoformat file =
     (case identify_format file of
        Inl e \<Rightarrow> Inl e
      | Inr format_type \<Rightarrow>
          if format_type = Some ''format1'' then map_sum id Some (process_xml_format1 fromisoformat file)
          else if format_type = Some ''format2'' then map_sum id Some (process_xml_format2 fromisoformat file)
          else if format_type = Some ''format31'' then map_sum id Some (process_xml_format31 fromisoformat file)
          else Inr None)"

section \<open>pdf_handler.py\<close>

subsection \<open>\<open>os.path\<close> on POSIX paths\<close>

definition basename :: "string \<Rightarrow> string" where
  "basename p = rev (takeWhile (\<lambda>c. c \<noteq> CHR ''/'') (rev p))"

text \<open>
  \<open>os.path.splitext(p)[0]\<close>: the path without the extension of its last component;
  leading dots of the component do not start an extension.
\<close>

definition splitext_name :: "string \<Rightarrow> string" where
  "splitext_name n =
     (case dropWhile (\<lambda>c. c \<noteq> CHR ''.'') (rev n) of
        [] \<Rightarrow> n
      | dot # b \<Rightarrow> if list_ex (\<lambda>c. c \<noteq> CHR ''.'') b then rev b else n)"

definition splitext_root :: "string \<Rightarrow> string" where
  "splitext_root p =
     (let n = basename p in take (length p - length n) p @ splitext_name n)"

subsection \<open>The functions of the module\<close>

text \<open>\<open>pdf_files\<close> is a dictionary from the name of a PDF file to its path.\<close>

definition identify_pdf :: "string \<Rightarrow> (string \<times> string) list \<Rightarrow> string" where
  "identify_pdf xml_filename pdf_files =
     (let base_name = splitext_root xml_filename;
          pdf_name = base_name @ ''.pdf''
      in if pdf_name \<in> set (map fst pdf_files) then pdf_name else ''No encontrado'')"

text \<open>
  The loop of \<open>process_uploaded_files\<close> over \<open>all_xml_files\<close>, each path with the file
  that stands there. \<open>all_data\<close> is the list the loop appends to; \<open>printed\<close> are the lines
  of the \<open>except\<close> branch, as the path and the exception. \<open>if data\<close> is false for \<open>None\<close>
  and for an empty dictionary. The progress bar is not modelled.
\<close>

fun process_loop ::
  "(string \<Rightarrow> datetime option) \<Rightarrow> (string \<times> string) list \<Rightarrow> (string \<times> xml_file) list \<Rightarrow>
   pydict list \<Rightarrow> (string \<times> pyerror) list \<Rightarrow> pydict list \<times> (string \<times> pyerror) list" where
  "process_loop fromisoformat pdf_files [] all_data printed = (all_data, printed)"
| "process_loop fromisoformat pdf_files ((xml_path, file) # rest) all_data printed =
     (case process_file_based_on_format fromisoformat file of
        Inl e \<Rightarrow> process_loop fromisoformat pdf_files rest all_data (printed @ [(xml_path, e)])
      | Inr None \<Rightarrow> process_loop fromisoformat pdf_files rest all_data printed
      | Inr (Some data) \<Rightarrow>
          if data \<noteq> [] then
            (let xml_filename = basename xml_path;
                 data = dict_setitem data ''XML_File'' (PStr xml_filename);
                 data = dict_setitem data ''PDF Asociado'' (PStr (identify_pdf xml_filename pdf_files))
             in process_loop fromisoformat pdf_files rest (all_data @ [data]) printed)
          else process_loop fromisoformat pdf_files rest all_data printed)"

subsection \<open>The data frame\<close>

text \<open>
  \<open>pd.DataFrame(all_data)\<close> is the list of its rows, each a dictionary with the same
  keys. A column that is read and is missing raises \<open>KeyError\<close>.

  \<open>astype(float)\<close> converts each cell with \<open>float\<close>; \<open>None\<close> becomes not-a-number.
\<close>

fun cell_to_float :: "pyval \<Rightarrow> pyerror + pyval" where
  "cell_to_float (PStr s) = (case float_str s of Inl e \<Rightarrow> Inl e | Inr x \<Rightarrow> Inr (PFloat x))"
| "cell_to_float (PFloat x) = Inr (PFloat x)"
| "cell_to_float PNone = Inr (PFloat NaN)"
| "cell_to_float (PDateTime d) = Inl TypeError"

fun astype_float :: "string \<Rightarrow> pydict list \<Rightarrow> pyerror + pydict list" where
  "astype_float col [] = Inr []"
| "astype_float col (row # rows) =
     (case dict_getitem row col of
        Inl e \<Rightarrow> Inl e
      | Inr v \<Rightarrow>
          (case cell_to_float v of
             Inl e \<Rightarrow> Inl e
           | Inr x \<Rightarrow>
               (case astype_float col rows of
                  Inl e \<Rightarrow> Inl e
                | Inr rows' \<Rightarrow> Inr (dict_setitem row col x # rows'))))"

text \<open>
  The order of dates. Two naive dates compare by their fields. Two aware dates compare
  by the instant they denote: the proleptic Gregorian ordinal of the day
  (\<open>date.toordinal\<close>) and the time of day, less the offset. A naive and an aware date
  cannot be compared: \<open>TypeError\<close>.
\<close>

definition is_leap :: "int \<Rightarrow> bool" where
  "is_leap y = (y mod 4 = 0 \<and> (y mod 100 \<noteq> 0 \<or> y mod 400 = 0))"

definition days_before_year :: "int \<Rightarrow> int" where
  "days_before_year y = (y - 1) * 365 + (y - 1) div 4 - (y - 1) div 100 + (y - 1) div 400"

definition days_before_month :: "int \<Rightarrow> int \<Rightarrow> int" where
  "days_before_month y m =
     sum_list (take (nat (m - 1)) [31, 28, 31, 30, 31, 30, 31, 31, 30, 31, 30, 31])
     + (if 2 < m \<and> is_leap y then 1 else 0)"

definition toordinal :: "datetime \<Rightarrow> int" where
  "toordinal d = days_before_year (year d) + days_before_month (year d) (month d) + day d"

text \<open>The instant of an aware date with offset \<open>off\<close>, in microseconds.\<close>

definition instant :: "datetime \<Rightarrow> int \<Rightarrow> int" where
  "instant d off =
     (((toordinal d * 24 + hour d) * 60 + minute d) * 60 + second d) * 1000000 + microsecond d - off"

fun is_naive :: "pyval \<Rightarrow> bool" where
  "is_naive (PDateTime d) = (utcoffset d = None)"
| "is_naive v = False"

fun is_aware :: "pyval \<Rightarrow> bool" where
  "is_aware (PDateTime d) = (utcoffset d \<noteq> None)"
| "is_aware v = False"

text \<open>
  \<open>sort_values(by=col, na_position='last')\<close> on a column of dates: ascending, the rows
  without a date last; \<open>TypeError\<close> when the column holds naive and aware dates. The key
  of a row is \<open>(True, _)\<close> when the date is missing, \<open>(False, fields)\<close> for a naive and
  \<open>(False, instant, _)\<close> for an aware date, compared lexicographically. Rows with equal
  keys are kept in their order here; the library does not promise an order among them,
  and no statement below depends on it.
\<close>

type_synonym date_key = "bool \<times> int \<times> int \<times> int \<times> int \<times> int \<times> int \<times> int"

fun date_key_of :: "pyval \<Rightarrow> pyerror + date_key" where
  "date_key_of PNone = Inr (True, 0, 0, 0, 0, 0, 0, 0)"
| "date_key_of (PDateTime d) =
     Inr (case utcoffset d of
            None \<Rightarrow> (False, year d, month d, day d, hour d, minute d, second d, microsecond d)
          | Some off \<Rightarrow> (False, instant d off, 0, 0, 0, 0, 0, 0))"
| "date_key_of (PStr s) = Inl TypeError"
| "date_key_of (PFloat x) = Inl TypeError"

fun column_keys :: "string \<Rightarrow> pydict list \<Rightarrow> pyerror + date_key list" where
  "column_keys col [] = Inr []"
| "column_keys col (row # rows) =
     (case dict_getitem row col of
        Inl e \<Rightarrow> Inl e
      | Inr v \<Rightarrow>
          (case date_key_of v of
             Inl e \<Rightarrow> Inl e
           | Inr k \<Rightarrow>
               (case column_keys col rows of
                  Inl e \<Rightarrow> Inl e
                | Inr ks \<Rightarrow> Inr (k # ks))))"

definition sort_values :: "string \<Rightarrow> pydict list \<Rightarrow> pyerror + pydict list" where
  "sort_values col rows =
     (case column_keys col rows of
        Inl e \<Rightarrow> Inl e
      | Inr ks \<Rightarrow>
          if list_ex (\<lambda>row. is_naive (dict_get row col PNone)) rows
             \<and> list_ex (\<lambda>row. is_aware (dict_get row col PNone)) rows
          then Inl TypeError
          else Inr (map snd (sort_key fst (zip ks rows))))"

definition drop_column :: "string \<Rightarrow> pydict list \<Rightarrow> pyerror + pydict list" where
  "drop_column col rows =
     (if list_all (\<lambda>row. col \<in> set (map fst row)) rows
      then Inr (map (AList.delete col) rows) else Inl KeyError)"

text \<open>
  \<open>process_uploaded_files\<close> from the loop on: the files were written to the temporary
  directory and collected before. The result is what was printed, and the data frame or
  the exception that left the function.
\<close>

definition process_uploaded_files ::
  "(string \<Rightarrow> datetime option) \<Rightarrow> (string \<times> string) list \<Rightarrow> (string \<times> xml_file) list \<Rightarrow>
   (string \<times> pyerror) list \<times> (pyerror + pydict list)" where
  "process_uploaded_files fromisoformat pdf_files all_xml_files =
     (case process_loop fromisoformat pdf_files all_xml_files [] [] of
        (all_data, printed) \<Rightarrow>
          (printed,
           if all_data = [] then Inr []
           else (case astype_float ''Cantidad Litros Facturada'' all_data of
                   Inl e \<Rightarrow> Inl e
                 | Inr df \<Rightarrow>
                     (case astype_float ''Litros Transportada'' df of
                        Inl e \<Rightarrow> Inl e
                      | Inr df \<Rightarrow>
                          (case sort_values ''FechaEmision'' df of
                             Inl e \<Rightarrow> Inl e
                           | Inr df \<Rightarrow> drop_column ''FechaEmision'' df)))))"

section \<open>The specification's notions\<close>

text \<open>
  The definitions of this section follow the words of the specification, not the code;
  the theorems compare them with the functions above.
\<close>

subsection \<open>Schema variants\<close>

datatype schema_variant = V1 | V2 | V3 | Unrecognized

fun variant_namespace :: "schema_variant \<Rightarrow> string" where
  "variant_namespace V1 = NS_CartaPorte20"
| "variant_namespace V2 = NS_CartaPorte30"
| "variant_namespace V3 = NS_CartaPorte31"
| "variant_namespace Unrecognized = []"

fun variant_label :: "schema_variant \<Rightarrow> string option" where
  "variant_label V1 = Some ''format1''"
| "variant_label V2 = Some ''format2''"
| "variant_label V3 = Some ''format31''"
| "variant_label Unrecognized = None"

text \<open>An element with the qualified name \<open>q\<close> is \<open>e\<close> itself or lies below it.\<close>

fun occurs_in :: "string \<times> string \<Rightarrow> element \<Rightarrow> bool" where
  "occurs_in q (Element t a cs) = (t = q \<or> list_ex (occurs_in q) cs)"

text \<open>
  A document has a merchandise element of a variant when an element \<open>Mercancia\<close> of the
  variant's namespace lies below the root element (a descendant of the root).
\<close>

definition has_mercancia :: "schema_variant \<Rightarrow> element \<Rightarrow> bool" where
  "has_mercancia v root_el = list_ex (occurs_in (variant_namespace v, ''Mercancia'')) (children root_el)"

definition classify :: "element \<Rightarrow> schema_variant" where
  "classify root_el =
     (if has_mercancia V1 root_el then V1
      else if has_mercancia V2 root_el then V2
      else if has_mercancia V3 root_el then V3
      else Unrecognized)"

subsection \<open>One extractor with two parameters\<close>

datatype quantity_location_policy = DirectAttribute | NestedThenFallback

definition parse_number :: "pyval \<Rightarrow> pyfloat" where
  "parse_number v = (case py_float v of Inr x \<Rightarrow> x | Inl e \<Rightarrow> Finite 0)"

definition comparison :: "pyfloat \<Rightarrow> pyfloat \<Rightarrow> string" where
  "comparison billed transported =
     (if float_lt (float_abs (float_sub billed transported)) (float_of_rat (1 / 1000000000))
      then ''Iguales'' else ''Diferentes'')"

definition raw_transported :: "string \<Rightarrow> quantity_location_policy \<Rightarrow> element \<Rightarrow> string" where
  "raw_transported ns policy mercancia =
     (case policy of
        DirectAttribute \<Rightarrow> attrib_get mercancia ''Cantidad'' []
      | NestedThenFallback \<Rightarrow>
          (case ET_find (ns, ''CantidadTransporta'') mercancia of
             Some nested \<Rightarrow> attrib_get nested ''Cantidad'' []
           | None \<Rightarrow> attrib_get mercancia ''Cantidad'' []))"

definition generic_extractor ::
  "string \<Rightarrow> quantity_location_policy \<Rightarrow> (string \<Rightarrow> datetime option) \<Rightarrow> xml_file \<Rightarrow> pyerror + pydict" where
  "generic_extractor ns policy fromisoformat file =
     (case ET_parse file of
        Inl e \<Rightarrow> Inl e
      | Inr root_el \<Rightarrow>
          (let mercancia = ET_find (ns, ''Mercancia'') root_el;
               billed = parse_number
                  (case ET_find (NS_CFDI, ''Concepto'') root_el of
                     None \<Rightarrow> PStr ''0''
                   | Some concepto \<Rightarrow> PStr (attrib_get concepto ''Cantidad'' []));
               transported = parse_number
                  (case mercancia of
                     None \<Rightarrow> PStr ''0''
                   | Some m \<Rightarrow> PStr (raw_transported ns policy m))
           in Inr (take 4 (extract_common_data fromisoformat root_el) @
                [(''Clave SAT'',
                    case mercancia of None \<Rightarrow> PNone
                    | Some m \<Rightarrow> PStr (attrib_get m ''BienesTransp'' [])),
                 (''Cantidad Litros Facturada'', PStr (fmt3 billed)),
                 (''Litros Transportada'', PStr (fmt3 transported)),
                 (''Combustible'',
                    case mercancia of None \<Rightarrow> PNone
                    | Some m \<Rightarrow> map_clave_to_combustible (attrib_get m ''BienesTransp'' [])),
                 (''Comparacion'', PStr (comparison billed transported))])))"

subsection \<open>Documents that differ in a namespace only\<close>

text \<open>
  \<open>rename_ns f\<close> replaces the namespace of every element of a document and leaves all the
  rest. \<open>swap_ns a b\<close> exchanges two namespaces: on a document without elements of \<open>b\<close> it
  substitutes \<open>b\<close> for \<open>a\<close>.
\<close>

fun rename_ns :: "(string \<Rightarrow> string) \<Rightarrow> element \<Rightarrow> element" where
  "rename_ns f (Element t a cs) = Element (f (fst t), snd t) a (map (rename_ns f) cs)"

definition rename_file :: "(string \<Rightarrow> string) \<Rightarrow> xml_file \<Rightarrow> xml_file" where
  "rename_file f doc = (case doc of WellFormed r \<Rightarrow> WellFormed (rename_ns f r) | _ \<Rightarrow> doc)"

definition swap_ns :: "string \<Rightarrow> string \<Rightarrow> string \<Rightarrow> string" where
  "swap_ns a b x = (if x = a then b else if x = b then a else x)"

text \<open>The fields of a record that do not come from the transported quantity.\<close>

definition other_fields :: "pydict \<Rightarrow> pydict" where
  "other_fields d = AList.delete ''Litros Transportada'' (AList.delete ''Comparacion'' d)"

subsection \<open>Texts with three decimals\<close>

text \<open>
  A text is formatted to three decimal places when it is an optional minus sign, one or
  more digits, a point and exactly three digits; \<open>fixed3_value\<close> is the number that such a
  text denotes.
\<close>

definition is_fixed3 :: "string \<Rightarrow> bool" where
  "is_fixed3 s =
     (let t = (case s of [] \<Rightarrow> [] | c # cs \<Rightarrow> if c = CHR ''-'' then cs else s);
          ip = takeWhile is_digit t;
          r = dropWhile is_digit t
      in ip \<noteq> [] \<and>
         (case r of [] \<Rightarrow> False | c # fp \<Rightarrow> c = CHR ''.'' \<and> length fp = 3 \<and> list_all is_digit fp))"

definition fixed3_value :: "string \<Rightarrow> rat" where
  "fixed3_value s =
     (case s of
        [] \<Rightarrow> 0
      | c # cs \<Rightarrow>
          if c = CHR ''-'' then - of_int (int_of_digits (filter is_digit cs)) / 1000
          else of_int (int_of_digits (filter is_digit s)) / 1000)"

text \<open>The two quantities that an extractor normalises, as floats.\<close>

definition billed_value :: "element \<Rightarrow> pyfloat" where
  "billed_value root_el =
     parse_number
       (case ET_find (NS_CFDI, ''Concepto'') root_el of
          None \<Rightarrow> PStr ''0''
        | Some concepto \<Rightarrow> PStr (attrib_get concepto ''Cantidad'' []))"

definition transported_value :: "string \<Rightarrow> quantity_location_policy \<Rightarrow> element \<Rightarrow> pyfloat" where
  "transported_value ns policy root_el =
     parse_number
       (case ET_find (ns, ''Mercancia'') root_el of
          None \<Rightarrow> PStr ''0''
        | Some m \<Rightarrow> PStr (raw_transported ns policy m))"

subsection \<open>The batch\<close>

text \<open>
  What one file of a batch contributes: the row of its record, with the name of the XML
  file and of its PDF, when the document is recognised, and a printed line when
  processing it raised an exception.
\<close>

definition rows_of :: "(string \<Rightarrow> datetime option) \<Rightarrow> (string \<times> string) list \<Rightarrow> string \<times> xml_file \<Rightarrow> pydict list" where
  "rows_of fi pdf_files f =
     (case process_file_based_on_format fi (snd f) of
        Inr (Some data) \<Rightarrow>
          [dict_setitem (dict_setitem data ''XML_File'' (PStr (basename (fst f))))
             ''PDF Asociado'' (PStr (identify_pdf (basename (fst f)) pdf_files))]
      | _ \<Rightarrow> [])"

definition printed_of :: "(string \<Rightarrow> datetime option) \<Rightarrow> string \<times> xml_file \<Rightarrow> (string \<times> pyerror) list" where
  "printed_of fi f =
     (case process_file_based_on_format fi (snd f) of Inl e \<Rightarrow> [(fst f, e)] | _ \<Rightarrow> [])"







section \<open>Example documents\<close>

text \<open>
  A \<open>fromisoformat\<close> for the examples. It reads a calendar date \<open>YYYY-MM-DD\<close>, alone or
  followed by \<open>THH:MM:SS\<close>, and then possibly by an offset \<open>+HH:MM\<close> or \<open>-HH:MM\<close>, to the
  datetime that the library gives for these texts, and rejects every other text, also
  texts that the library accepts.
\<close>

definition two_digits :: "string \<Rightarrow> nat \<Rightarrow> int" where
  "two_digits s i = int_of_digits (take 2 (drop i s))"

definition example_fromisoformat :: "string \<Rightarrow> datetime option" where
  "example_fromisoformat s =
     (let y = int_of_digits (take 4 s); m = two_digits s 5; d = two_digits s 8;
          date_ok = (10 \<le> length s \<and> list_all is_digit (take 4 s @ take 2 (drop 5 s) @ take 2 (drop 8 s))
                      \<and> s ! 4 = CHR ''-'' \<and> s ! 7 = CHR ''-''
                      \<and> 1 \<le> y \<and> 1 \<le> m \<and> m \<le> 12
                      \<and> 1 \<le> d \<and> d \<le> days_before_month y (m + 1) - days_before_month y m);
          time_ok = (19 \<le> length s \<and> s ! 10 = CHR ''T'' \<and> s ! 13 = CHR '':'' \<and> s ! 16 = CHR '':''
                      \<and> list_all is_digit (take 2 (drop 11 s) @ take 2 (drop 14 s) @ take 2 (drop 17 s))
                      \<and> two_digits s 11 \<le> 23 \<and> two_digits s 14 \<le> 59 \<and> two_digits s 17 \<le> 59);
          offset_ok = (length s = 25 \<and> (s ! 19 = CHR ''+'' \<or> s ! 19 = CHR ''-'') \<and> s ! 22 = CHR '':''
                      \<and> list_all is_digit (take 2 (drop 20 s) @ take 2 (drop 23 s))
                      \<and> two_digits s 20 \<le> 23 \<and> two_digits s 23 \<le> 59);
          date = \<lparr>year = y, month = m, day = d, hour = 0, minute = 0, second = 0, microsecond = 0,
                  utcoffset = None\<rparr>;
          date_time = date\<lparr>hour := two_digits s 11, minute := two_digits s 14, second := two_digits s 17\<rparr>
      in if date_ok \<and> length s = 10 then Some date
         else if date_ok \<and> time_ok \<and> length s = 19 then Some date_time
         else if date_ok \<and> time_ok \<and> offset_ok then
           Some (date_time\<lparr>utcoffset :=
             Some ((if s ! 19 = CHR ''-'' then - 1 else 1)
                     * (two_digits s 20 * 3600 + two_digits s 23 * 60) * 1000000)\<rparr>)
         else None)"

text \<open>
  A CFDI document: the root \<open>Comprobante\<close> with its date, one invoice line with the billed
  quantity, and the complement, where the merchandise elements of a Carta Porte stand.
\<close>

definition comprobante :: "string \<Rightarrow> string \<Rightarrow> element list \<Rightarrow> xml_file" where
  "comprobante fecha cantidad complemento =
     WellFormed (Element (NS_CFDI, ''Comprobante'')
       [(''Fecha'', fecha), (''Serie'', ''CP''), (''Folio'', ''17'')]
       [Element (NS_CFDI, ''Conceptos'') []
          [Element (NS_CFDI, ''Concepto'') [(''Cantidad'', cantidad)] []],
        Element (NS_CFDI, ''Complemento'') [] complemento])"

definition mercancia_of :: "string \<Rightarrow> string \<Rightarrow> string \<Rightarrow> element list \<Rightarrow> element" where
  "mercancia_of ns clave cantidad nested =
     Element (ns, ''Mercancia'') [(''BienesTransp'', clave), (''Cantidad'', cantidad)] nested"

definition cantidad_transporta_of :: "string \<Rightarrow> string \<Rightarrow> element" where
  "cantidad_transporta_of ns cantidad = Element (ns, ''CantidadTransporta'') [(''Cantidad'', cantidad)] []"

definition doc_v1 :: xml_file where
  "doc_v1 = comprobante ''2023-01-01T08:30:00'' ''100''
     [mercancia_of NS_CartaPorte20 ''15101515'' ''100'' []]"

definition doc_v2_fallback :: xml_file where
  "doc_v2_fallback = comprobante ''2023-05-01'' ''50''
     [mercancia_of NS_CartaPorte30 ''15101514'' ''50'' []]"

definition doc_v2_nested :: xml_file where
  "doc_v2_nested = comprobante ''2023-05-01'' ''50''
     [mercancia_of NS_CartaPorte30 ''15101514'' ''50'' [cantidad_transporta_of NS_CartaPorte30 ''75'']]"

definition doc_v3_fallback :: xml_file where
  "doc_v3_fallback = comprobante ''sin fecha'' ''50''
     [mercancia_of NS_CartaPorte31 ''15101505'' ''50'' []]"

definition doc_v3_nested :: xml_file where
  "doc_v3_nested = comprobante ''sin fecha'' ''75.0''
     [mercancia_of NS_CartaPorte31 ''99999999'' ''50'' [cantidad_transporta_of NS_CartaPorte31 ''75'']]"

definition doc_unrecognized :: xml_file where
  "doc_unrecognized = comprobante ''2023-03-01'' ''10'' []"

text \<open>A document with merchandise elements of two variants, the later variant first.\<close>

definition doc_two_variants :: xml_file where
  "doc_two_variants = comprobante ''2023-03-01'' ''10''
     [mercancia_of NS_CartaPorte31 ''15101505'' ''1'' [],
      mercancia_of NS_CartaPorte20 ''15101514'' ''2'' []]"

text \<open>The record of \<open>doc_v2_nested\<close>.\<close>

definition record_v2_nested :: pydict where
  "record_v2_nested =
     [(''FechaEmision'',
         PDateTime \<lparr>year = 2023, month = 5, day = 1, hour = 0, minute = 0, second = 0, microsecond = 0,
           utcoffset = None\<rparr>),
      (''Periodo'', PStr ''5''), (''Serie'', PStr ''CP''), (''Folio'', PStr ''17''),
      (''Clave SAT'', PStr ''15101514''), (''Cantidad Litros Facturada'', PStr ''50.000''),
      (''Litros Transportada'', PStr ''75.000''), (''Combustible'', PStr ''magna''),
      (''Comparacion'', PStr ''Diferentes'')]"

text \<open>A record without billed quantity and with a transported quantity that is no number.\<close>

definition doc_bad_quantities :: xml_file where
  "doc_bad_quantities =
     WellFormed (Element (NS_CFDI, ''Comprobante'') [(''Folio'', ''18'')]
       [Element (NS_CFDI, ''Concepto'') [] [],
        Element (NS_CartaPorte31, ''Mercancia'') [(''Cantidad'', ''doce'')] []])"

text \<open>A document whose billed quantity is the text \<open>inf\<close>.\<close>

definition doc_inf :: xml_file where
  "doc_inf = comprobante ''2023-02-01'' ''inf'' [mercancia_of NS_CartaPorte20 ''15101514'' ''100'' []]"



text \<open>
  A batch of five files, in the order of their paths: documents dated May 2023 and
  January 2023, one without a date that can be read, one that is not well-formed and
  one of no known variant; one PDF file, for the second document. \<open>example_frame\<close> is the
  data frame of the batch. Then a batch of the two documents with offsets and its data
  frame, a batch of a document with a naive date and one with an offset, and a batch
  with two files that \<open>ET.parse\<close> cannot decode.
\<close>

definition example_pdf_files :: "(string \<times> string) list" where
  "example_pdf_files = [(''b.pdf'', ''./temp_files/b.pdf'')]"






definition encoding_batch :: "(string \<times> xml_file) list" where
  "encoding_batch =
     [(''./temp_files/a.xml'', UnknownEncoding), (''./temp_files/b.xml'', doc_v1),
      (''./temp_files/c.xml'', MultiByteEncoding)]"

section \<open>Properties of utils.py\<close>

subsection \<open>\<open>parse_float\<close>\<close>

lemma float_str_error: "float_str s = Inl e \<Longrightarrow> e = ValueError"
  by (auto simp: float_str_def Let_def split: if_splits prod.splits option.splits)

lemma py_float_error: "py_float v = Inl e \<Longrightarrow> e = ValueError \<or> e = TypeError"
  by (cases v) (auto dest: float_str_error)

lemma parse_float_eq: "parse_float v = Inr (case py_float v of Inr x \<Rightarrow> x | Inl e \<Rightarrow> Finite 0)"
  using py_float_error [of v] by (auto simp: parse_float_def split: sum.splits)

lemma parse_float_docstring:
  "parse_float (PStr ''123.45'') = Inr (Finite (8687021468732621 / 70368744177664))"
  "parse_float (PStr ''abc'') = Inr (Finite 0)"
  "parse_float PNone = Inr (Finite 0)"
  "parse_float (PStr []) = Inr (Finite 0)"
  by code_simp+

text \<open>
  C6. \<open>parse_float\<close> is total: on every input, a string (numeric, empty or any other
  text) or \<open>None\<close>, it returns a float and raises nothing; the float is the one that
  \<open>float\<close> gives when the coercion succeeds and \<open>0.0\<close> for every input on which it
  fails. The four inputs of its docstring and of the specification are evaluated.
\<close>

theorem parse_float_total:
  "parse_float v = Inr (case py_float v of Inr x \<Rightarrow> x | Inl e \<Rightarrow> Finite 0)
   \<and> parse_float (PStr ''123.45'') = Inr (Finite (8687021468732621 / 70368744177664))
   \<and> parse_float (PStr ''abc'') = Inr (Finite 0)
   \<and> parse_float (PStr []) = Inr (Finite 0)
   \<and> parse_float PNone = Inr (Finite 0)"
  using parse_float_eq [of v] parse_float_docstring by simp

subsection \<open>The format with three decimals\<close>

lemma of_char_digit_char: "0 \<le> d \<Longrightarrow> d \<le> 9 \<Longrightarrow> (of_char (digit_char d) :: int) = 48 + d"
  by (simp add: digit_char_def)

lemma is_digit_digit_char: "0 \<le> d \<Longrightarrow> d \<le> 9 \<Longrightarrow> is_digit (digit_char d)"
  by (simp add: is_digit_def of_char_digit_char)

lemma not_digit_dot: "\<not> is_digit CHR ''.''" "\<not> is_digit CHR ''-''"
  by (simp_all add: is_digit_def)

lemma digits_of_digits: "0 \<le> n \<Longrightarrow> list_all is_digit (digits_of n) \<and> digits_of n \<noteq> []"
proof (induction n rule: digits_of.induct)
  case (1 n)
  show ?case
  proof (cases "n < 10")
    case True
    with 1(2) show ?thesis by (subst digits_of.simps, simp add: is_digit_digit_char)+
  next
    case False
    then have "0 \<le> n div 10" by simp
    with 1 False have "list_all is_digit (digits_of (n div 10))" by simp
    with False show ?thesis
      by (subst digits_of.simps, simp add: is_digit_digit_char)+
  qed
qed

lemma int_of_digits_snoc: "int_of_digits (ds @ [c]) = 10 * int_of_digits ds + (of_char c - 48)"
  by (simp add: int_of_digits_def)

lemma int_of_digits_digits_of: "0 \<le> n \<Longrightarrow> int_of_digits (digits_of n) = n"
proof (induction n rule: digits_of.induct)
  case (1 n)
  show ?case
  proof (cases "n < 10")
    case True
    with 1(2) show ?thesis
      by (subst digits_of.simps) (simp add: int_of_digits_def of_char_digit_char)
  next
    case False
    then have "0 \<le> n div 10" by simp
    with 1 False have "int_of_digits (digits_of (n div 10)) = n div 10" by simp
    with False show ?thesis
      by (subst digits_of.simps) (simp add: int_of_digits_snoc of_char_digit_char)
  qed
qed


lemma round_half_even_bounds: "\<bar>of_int (round_half_even x) - x\<bar> \<le> 1 / 2"
proof -
  have "of_int \<lfloor>x\<rfloor> \<le> x" "x < of_int \<lfloor>x\<rfloor> + 1" by linarith+
  then show ?thesis by (auto simp: round_half_even_def Let_def)
qed

lemma round_half_even_nonneg: "0 \<le> x \<Longrightarrow> 0 \<le> round_half_even x"
  by (auto simp: round_half_even_def Let_def)

lemma takeWhile_digits:
  "list_all is_digit ds \<Longrightarrow> takeWhile is_digit (ds @ CHR ''.'' # rest) = ds"
  by (induction ds) (simp_all add: not_digit_dot)

lemma dropWhile_digits:
  "list_all is_digit ds \<Longrightarrow> dropWhile is_digit (ds @ CHR ''.'' # rest) = CHR ''.'' # rest"
  by (induction ds) (simp_all add: not_digit_dot)

lemma div_100: "(n::int) div 100 = 10 * (n div 1000) + n div 100 mod 10"
proof -
  have "n div 1000 = n div 100 div 10" by (simp add: zdiv_zmult2_eq)
  then show ?thesis by simp
qed

lemma div_10: "(n::int) div 10 = 10 * (n div 100) + n div 10 mod 10"
proof -
  have "n div 100 = n div 10 div 10" by (simp add: zdiv_zmult2_eq)
  then show ?thesis by simp
qed

lemma thousandths:
  "10 * (10 * (10 * (n div 1000) + n div 100 mod 10) + n div 10 mod 10) + n mod 10 = (n::int)"
  using div_100 [of n] div_10 [of n] by simp

lemma fixed3_shape:
  assumes "0 \<le> n"
  shows "\<exists>d ds a b c. fixed3 n = d # ds @ CHR ''.'' # [a, b, c] \<and> is_digit d \<and> list_all is_digit ds
            \<and> is_digit a \<and> is_digit b \<and> is_digit c
            \<and> int_of_digits (d # ds @ [a, b, c]) = n"
proof -
  from assms have k: "0 \<le> n div 1000" by simp
  from digits_of_digits [OF k] obtain d ds where dd: "digits_of (n div 1000) = d # ds"
    and dig: "is_digit d" "list_all is_digit ds"
    by (cases "digits_of (n div 1000)") auto
  define a where "a = digit_char (n div 100 mod 10)"
  define b where "b = digit_char (n div 10 mod 10)"
  define c where "c = digit_char (n mod 10)"
  have abc: "is_digit a" "is_digit b" "is_digit c"
    by (simp_all add: a_def b_def c_def is_digit_digit_char)
  have ov: "of_char a - 48 = n div 100 mod 10" "of_char b - 48 = n div 10 mod 10"
    "of_char c - 48 = n mod 10"
    by (simp_all add: a_def b_def c_def of_char_digit_char)
  have v: "int_of_digits (d # ds) = n div 1000"
    using int_of_digits_digits_of [OF k] by (simp add: dd)
  have "int_of_digits ((((d # ds) @ [a]) @ [b]) @ [c]) =
      10 * (10 * (10 * (n div 1000) + n div 100 mod 10) + n div 10 mod 10) + n mod 10"
    by (simp only: int_of_digits_snoc v ov)
  then have val: "int_of_digits (d # ds @ [a, b, c]) = n"
    unfolding thousandths by simp
  have "fixed3 n = d # ds @ CHR ''.'' # [a, b, c]"
    by (simp add: fixed3_def dd a_def b_def c_def)
  with dig abc val show ?thesis by blast
qed

lemma is_fixed3_fixed3:
  assumes n: "0 \<le> n"
  shows "is_fixed3 (fixed3 n)" "is_fixed3 (CHR ''-'' # fixed3 n)"
proof -
  from fixed3_shape [OF n] obtain d ds a b c where
    s: "fixed3 n = d # ds @ CHR ''.'' # [a, b, c]" and dig: "is_digit d" "list_all is_digit ds"
    "is_digit a" "is_digit b" "is_digit c" by blast
  have d: "d \<noteq> CHR ''-''" using dig(1) not_digit_dot by auto
  have tw: "takeWhile is_digit (d # ds @ CHR ''.'' # [a, b, c]) = d # ds"
    "dropWhile is_digit (d # ds @ CHR ''.'' # [a, b, c]) = CHR ''.'' # [a, b, c]"
    using takeWhile_digits [of "d # ds" "[a, b, c]"] dropWhile_digits [of "d # ds" "[a, b, c]"] dig
    by simp_all
  show "is_fixed3 (fixed3 n)"
    using dig d by (simp add: is_fixed3_def s Let_def tw del: takeWhile.simps dropWhile.simps)
  show "is_fixed3 (CHR ''-'' # fixed3 n)"
    using dig d by (simp add: is_fixed3_def s Let_def tw del: takeWhile.simps dropWhile.simps)
qed

lemma is_fixed3_fmt3: "is_fixed3 (fmt3 x) = is_finite x"
proof (cases x)
  case (Finite q)
  define n where "n = round_half_even (\<bar>q\<bar> * 1000)"
  have "0 \<le> n" unfolding n_def by (rule round_half_even_nonneg) simp
  from is_fixed3_fixed3 [OF this] have "is_fixed3 (fmt3 (Finite q))"
    by (simp only: fmt3.simps n_def [symmetric] split: if_split) simp
  then show ?thesis by (simp only: Finite is_finite.simps)
next
  case NegZero
  show ?thesis unfolding NegZero by code_simp
next
  case PosInf
  show ?thesis unfolding PosInf by code_simp
next
  case NegInf
  show ?thesis unfolding NegInf by code_simp
next
  case NaN
  show ?thesis unfolding NaN by code_simp
qed

lemma fixed3_value_fixed3:
  assumes n: "0 \<le> n"
  shows "fixed3_value (fixed3 n) = of_int n / 1000" "fixed3_value (CHR ''-'' # fixed3 n) = - of_int n / 1000"
proof -
  from fixed3_shape [OF n] obtain d ds a b c where
    s: "fixed3 n = d # ds @ CHR ''.'' # [a, b, c]" and dig: "is_digit d" "list_all is_digit ds"
    "is_digit a" "is_digit b" "is_digit c" and val: "int_of_digits (d # ds @ [a, b, c]) = n" by blast
  have d: "d \<noteq> CHR ''-''" using dig(1) not_digit_dot by auto
  have "filter is_digit ds = ds" using dig(2) by (simp add: list_all_iff)
  then have f: "filter is_digit (d # ds @ CHR ''.'' # [a, b, c]) = d # ds @ [a, b, c]"
    using dig by (simp add: not_digit_dot)
  show "fixed3_value (fixed3 n) = of_int n / 1000"
    using d by (simp add: fixed3_value_def s f val del: filter.simps filter_append)
  show "fixed3_value (CHR ''-'' # fixed3 n) = - of_int n / 1000"
    using arg_cong [OF f, of int_of_digits]
    by (simp add: fixed3_value_def s val del: filter.simps filter_append int_of_digits_def)
qed

lemma fmt3_rounds: "\<bar>fixed3_value (fmt3 (Finite q)) - q\<bar> \<le> 1 / 2000"
proof -
  define n where "n = round_half_even (\<bar>q\<bar> * 1000)"
  have n: "0 \<le> n" unfolding n_def by (rule round_half_even_nonneg) simp
  have b: "\<bar>of_int n - \<bar>q\<bar> * 1000\<bar> \<le> 1 / 2" unfolding n_def by (rule round_half_even_bounds)
  show ?thesis
  proof (cases "q < 0")
    case True
    then have "fmt3 (Finite q) = CHR ''-'' # fixed3 n" by (simp only: fmt3.simps n_def if_True)
    then have "fixed3_value (fmt3 (Finite q)) = - of_int n / 1000"
      by (simp only: fixed3_value_fixed3 [OF n])
    with b True show ?thesis by linarith
  next
    case False
    then have "fmt3 (Finite q) = fixed3 n" by (simp only: fmt3.simps n_def if_False)
    then have "fixed3_value (fmt3 (Finite q)) = of_int n / 1000"
      by (simp only: fixed3_value_fixed3 [OF n])
    with b False show ?thesis by linarith
  qed
qed






section \<open>Properties of xml_processor.py\<close>

subsection \<open>Parsing a file\<close>

lemma ET_parse_simps [simp]:
  "ET_parse (WellFormed r) = Inr r"
  "ET_parse NotWellFormed = Inl ParseError"
  "ET_parse UnknownEncoding = Inl LookupError"
  "ET_parse MultiByteEncoding = Inl ValueError"
  by (simp_all add: ET_parse_def)

lemma xml_file_cases [case_names Fails WellFormed]:
  assumes "\<And>e. ET_parse doc = Inl e \<Longrightarrow> P" and "\<And>r. doc = WellFormed r \<Longrightarrow> P"
  shows P
  using assms by (cases doc) simp_all

subsection \<open>Searching the tree\<close>

lemma occurs_in_iter: "occurs_in q e \<longleftrightarrow> (\<exists>x \<in> set (iter e). tag x = q)"
proof (induction e)
  case (Element t a cs)
  then show ?case by (auto simp: list_ex_iff)
qed

lemma findall_nonempty: "ET_findall q e \<noteq> [] \<longleftrightarrow> list_ex (occurs_in q) (children e)"
  by (auto simp: ET_findall_def filter_empty_conv list_ex_iff occurs_in_iter)

lemma find_None: "ET_find q e = None \<longleftrightarrow> \<not> list_ex (occurs_in q) (children e)"
  using findall_nonempty [of q e] by (auto simp: ET_find_def split: list.splits)

lemma find_tag:
  assumes "ET_find q e = Some x"
  shows "tag x = q"
proof -
  from assms obtain xs where "ET_findall q e = x # xs"
    by (auto simp: ET_find_def split: list.splits)
  then have "x \<in> set (filter (\<lambda>y. tag y = q) (concat (map iter (children e))))"
    by (simp add: ET_findall_def)
  then show ?thesis by simp
qed

lemma has_mercancia_findall:
  "has_mercancia v r \<longleftrightarrow> ET_findall (variant_namespace v, ''Mercancia'') r \<noteq> []"
  by (simp add: has_mercancia_def findall_nonempty)

lemma has_mercancia_find:
  "has_mercancia v r \<longleftrightarrow> ET_find (variant_namespace v, ''Mercancia'') r \<noteq> None"
  by (simp add: has_mercancia_def find_None)

subsection \<open>The normalisation step\<close>

lemma parse_number_empty: "parse_number (PStr []) = Finite 0"
  by code_simp

lemma parse_number_zero: "parse_number (PStr ''0'') = Finite 0"
  by code_simp

lemma parse_number_None: "parse_number PNone = Finite 0"
  by code_simp

lemma parse_float_number: "parse_float v = Inr (parse_number v)"
  using py_float_error [of v] by (auto simp: parse_float_def parse_number_def split: sum.splits)

lemma format_and_compare_eq:
  "format_and_compare_liters a b =
     Inr (fmt3 (parse_number a), fmt3 (parse_number b), comparison (parse_number a) (parse_number b))"
  by (simp add: format_and_compare_liters_def parse_float_number comparison_def)

lemma py_or_number: "parse_number (py_or (PStr s) (PStr ''0'')) = parse_number (PStr s)"
  by (cases "s = []") (simp_all add: py_or_def parse_number_empty parse_number_zero)

lemma py_or_None: "parse_number (py_or PNone (PStr ''0'')) = Finite 0"
  by (simp add: py_or_def parse_number_zero)

subsection \<open>Each extractor is the generic extractor at its namespace and policy\<close>

lemma format1_generic:
  "process_xml_format1 fi doc = generic_extractor NS_CartaPorte20 DirectAttribute fi doc"
proof (cases doc rule: xml_file_cases)
  case (Fails e)
  then show ?thesis by (simp add: process_xml_format1_def generic_extractor_def)
next
  case (WellFormed r)
  show ?thesis
    unfolding WellFormed process_xml_format1_def generic_extractor_def raw_transported_def
    by (cases "ET_find (NS_CFDI, ''Concepto'') r"; cases "ET_find (NS_CartaPorte20, ''Mercancia'') r")
       (simp_all add: ET_parse_def Let_def set_facturada_def extract_common_data_def dict_setitem_def
         dict_getitem_def dict_get_def store_normalised_def format_and_compare_eq py_or_number py_or_None
         parse_number_zero)
qed

lemma format2_generic:
  "process_xml_format2 fi doc = generic_extractor NS_CartaPorte30 NestedThenFallback fi doc"
proof (cases doc rule: xml_file_cases)
  case (Fails e)
  then show ?thesis by (simp add: process_xml_format2_def generic_extractor_def)
next
  case (WellFormed r)
  show ?thesis
    unfolding WellFormed process_xml_format2_def generic_extractor_def raw_transported_def
    by (cases "ET_find (NS_CFDI, ''Concepto'') r"; cases "ET_find (NS_CartaPorte30, ''Mercancia'') r")
       (simp_all add: ET_parse_def Let_def set_facturada_def extract_common_data_def dict_setitem_def
         dict_getitem_def dict_get_def store_normalised_def format_and_compare_eq
         parse_number_zero parse_number_None split: option.splits)
qed

lemma format31_generic:
  "process_xml_format31 fi doc = generic_extractor NS_CartaPorte31 NestedThenFallback fi doc"
proof (cases doc rule: xml_file_cases)
  case (Fails e)
  then show ?thesis by (simp add: process_xml_format31_def generic_extractor_def)
next
  case (WellFormed r)
  show ?thesis
    unfolding WellFormed process_xml_format31_def generic_extractor_def raw_transported_def
    by (cases "ET_find (NS_CFDI, ''Concepto'') r"; cases "ET_find (NS_CartaPorte31, ''Mercancia'') r")
       (simp_all add: ET_parse_def Let_def set_facturada_def extract_common_data_def dict_setitem_def
         dict_getitem_def dict_get_def store_normalised_def format_and_compare_eq
         parse_number_zero parse_number_None split: option.splits)
qed

lemma generic_wellformed: "\<exists>d. generic_extractor ns pol fi (WellFormed r) = Inr d"
  by (simp add: generic_extractor_def Let_def)

lemma generic_not_wellformed: "generic_extractor ns pol fi NotWellFormed = Inl ParseError"
  by (simp add: generic_extractor_def)

lemma generic_fails: "ET_parse doc = Inl e \<Longrightarrow> generic_extractor ns pol fi doc = Inl e"
  by (simp add: generic_extractor_def)

lemma identify_format_fails: "ET_parse doc = Inl e \<Longrightarrow> identify_format doc = Inl e"
  by (simp add: identify_format_def)

lemma dispatch_fails: "ET_parse doc = Inl e \<Longrightarrow> process_file_based_on_format fi doc = Inl e"
  by (simp add: process_file_based_on_format_def identify_format_def)

subsection \<open>Classification and dispatch\<close>

lemma identify_format_classify: "identify_format (WellFormed r) = Inr (variant_label (classify r))"
  using has_mercancia_findall [of V1 r] has_mercancia_findall [of V2 r] has_mercancia_findall [of V3 r]
  by (simp add: identify_format_def ET_parse_def classify_def)

lemma identify_format_not_wellformed: "identify_format NotWellFormed = Inl ParseError"
  by (simp add: identify_format_def ET_parse_def)

lemma dispatch_classify:
  "process_file_based_on_format fi (WellFormed r) =
     (case classify r of
        V1 \<Rightarrow> map_sum id Some (process_xml_format1 fi (WellFormed r))
      | V2 \<Rightarrow> map_sum id Some (process_xml_format2 fi (WellFormed r))
      | V3 \<Rightarrow> map_sum id Some (process_xml_format31 fi (WellFormed r))
      | Unrecognized \<Rightarrow> Inr None)"
  by (cases "classify r") (simp_all add: process_file_based_on_format_def identify_format_classify)

lemma dispatch_None:
  "process_file_based_on_format fi doc = Inr None \<longleftrightarrow> identify_format doc = Inr None"
proof (cases doc rule: xml_file_cases)
  case (Fails e)
  then show ?thesis by (simp add: dispatch_fails identify_format_fails)
next
  case (WellFormed r)
  show ?thesis
    using generic_wellformed [of NS_CartaPorte20 DirectAttribute fi r]
      generic_wellformed [of NS_CartaPorte30 NestedThenFallback fi r]
      generic_wellformed [of NS_CartaPorte31 NestedThenFallback fi r]
    unfolding WellFormed dispatch_classify identify_format_classify
    by (cases "classify r") (auto simp: format1_generic format2_generic format31_generic)
qed

lemma classify_examples:
  "identify_format doc_two_variants = Inr (Some ''format1'')"
  "identify_format doc_v2_nested = Inr (Some ''format2'')"
  "identify_format doc_v3_fallback = Inr (Some ''format31'')"
  "identify_format doc_unrecognized = Inr None"
  "process_file_based_on_format example_fromisoformat doc_unrecognized = Inr None"
  by code_simp+

text \<open>
  C1. \<open>identify_format\<close> raises \<open>ParseError\<close> on a file that is not well-formed, and on a
  well-formed one it returns the first of V1 (CartaPorte20), V2 (CartaPorte30), V3
  (CartaPorte31), in this order, whose \<open>Mercancia\<close> element is present below the root
  element, and \<open>None\<close> when none is present. \<open>process_file_based_on_format\<close> returns
  \<open>None\<close> exactly when the classification is \<open>None\<close>, and otherwise what the extractor of
  the variant returns. A document with a CartaPorte31 and then a CartaPorte20
  merchandise element is \<open>format1\<close>; the other examples classify a CartaPorte30, a
  CartaPorte31 and an unrecognised document.
\<close>

theorem identify_format_priority_and_dispatch:
  "identify_format NotWellFormed = Inl ParseError
   \<and> identify_format (WellFormed r) = Inr (variant_label (classify r))
   \<and> process_file_based_on_format fi (WellFormed r) =
       (case classify r of
          V1 \<Rightarrow> map_sum id Some (process_xml_format1 fi (WellFormed r))
        | V2 \<Rightarrow> map_sum id Some (process_xml_format2 fi (WellFormed r))
        | V3 \<Rightarrow> map_sum id Some (process_xml_format31 fi (WellFormed r))
        | Unrecognized \<Rightarrow> Inr None)
   \<and> (process_file_based_on_format fi doc = Inr None) = (identify_format doc = Inr None)
   \<and> identify_format doc_two_variants = Inr (Some ''format1'')
   \<and> identify_format doc_v2_nested = Inr (Some ''format2'')
   \<and> identify_format doc_v3_fallback = Inr (Some ''format31'')
   \<and> identify_format doc_unrecognized = Inr None
   \<and> process_file_based_on_format example_fromisoformat doc_unrecognized = Inr None"
  using identify_format_not_wellformed identify_format_classify [of r] dispatch_classify [of fi r]
    dispatch_None [of fi doc] classify_examples
  by simp

subsection \<open>\<open>format_and_compare_liters\<close>\<close>

lemma format_examples:
  "format_and_compare_liters (PStr ''10'') (PStr ''10'') = Inr (''10.000'', ''10.000'', ''Iguales'')"
  "format_and_compare_liters (PStr ''10'') (PStr ''10.0000000009'') = Inr (''10.000'', ''10.000'', ''Iguales'')"
  "format_and_compare_liters (PStr ''10'') (PStr ''10.01'') = Inr (''10.000'', ''10.010'', ''Diferentes'')"
  "format_and_compare_liters (PStr ''0.0625'') (PStr ''0.0635'') = Inr (''0.062'', ''0.064'', ''Diferentes'')"
  by code_simp+

lemma fmt3_not_finite: "is_finite x \<or> fmt3 x = ''inf'' \<or> fmt3 x = ''-inf'' \<or> fmt3 x = ''nan''"
  by (cases x) simp_all

lemma comparison_labels: "comparison x y = ''Iguales'' \<or> comparison x y = ''Diferentes''"
  by (simp add: comparison_def)

text \<open>
  C3, as the code has it. \<open>format_and_compare_liters\<close> never raises. It parses both inputs
  with \<open>parse_float\<close> and returns the \<open>.3f\<close> format of each value: a text with exactly three
  decimals, within half a thousandth of the value (rounded to nearest, ties to even: the
  float \<open>0.0625\<close> is written \<open>0.062\<close>), when the value is finite, and \<open>inf\<close>, \<open>-inf\<close> or \<open>nan\<close>
  when it is not. The comparison is \<open>Iguales\<close> exactly when the absolute value of the
  binary64 difference of the two values is less than the float \<open>1e-9\<close>, and \<open>Diferentes\<close>
  otherwise. The three examples of the specification are evaluated.
\<close>

theorem format_and_compare_liters_spec:
  "format_and_compare_liters a b =
     Inr (fmt3 (parse_number a), fmt3 (parse_number b),
          if float_lt (float_abs (float_sub (parse_number a) (parse_number b)))
               (float_of_rat (1 / 1000000000))
          then ''Iguales'' else ''Diferentes'')
   \<and> parse_float a = Inr (parse_number a)
   \<and> is_fixed3 (fmt3 x) = is_finite x
   \<and> (is_finite x \<or> fmt3 x = ''inf'' \<or> fmt3 x = ''-inf'' \<or> fmt3 x = ''nan'')
   \<and> \<bar>fixed3_value (fmt3 (Finite q)) - q\<bar> \<le> 1 / 2000
   \<and> format_and_compare_liters (PStr ''10'') (PStr ''10'') = Inr (''10.000'', ''10.000'', ''Iguales'')
   \<and> format_and_compare_liters (PStr ''10'') (PStr ''10.0000000009'') =
       Inr (''10.000'', ''10.000'', ''Iguales'')
   \<and> format_and_compare_liters (PStr ''10'') (PStr ''10.01'') =
       Inr (''10.000'', ''10.010'', ''Diferentes'')
   \<and> format_and_compare_liters (PStr ''0.0625'') (PStr ''0.0635'') =
       Inr (''0.062'', ''0.064'', ''Diferentes'')"
  using format_and_compare_eq [of a b] parse_float_number [of a] is_fixed3_fmt3 [of x]
    fmt3_not_finite [of x] fmt3_rounds [of q] format_examples
  by (simp only: comparison_def simp_thms)

text \<open>
  The claim as it is written fails where a value is not finite: the text \<open>nan\<close> parses to
  a float, and its format has no decimals.
\<close>

theorem format_and_compare_nan_counterexample:
  "format_and_compare_liters (PStr ''nan'') (PStr ''10'') = Inr (''nan'', ''10.000'', ''Diferentes'')
   \<and> \<not> is_fixed3 ''nan''"
  by code_simp

subsection \<open>The fields read from the merchandise element\<close>

lemma generic_sat_key:
  assumes "ET_find (ns, ''Mercancia'') r = Some m"
  shows "\<exists>d. generic_extractor ns pol fi (WellFormed r) = Inr d
           \<and> map_of d ''Clave SAT'' = Some (PStr (attrib_get m ''BienesTransp'' []))
           \<and> map_of d ''Combustible'' = Some (map_clave_to_combustible (attrib_get m ''BienesTransp'' []))"
  using assms by (simp add: generic_extractor_def Let_def extract_common_data_def)

lemma generic_transported:
  "map_sum id (\<lambda>d. map_of d ''Litros Transportada'') (generic_extractor ns pol fi (WellFormed r)) =
     Inr (Some (PStr (fmt3 (parse_number
       (case ET_find (ns, ''Mercancia'') r of
          None \<Rightarrow> PStr ''0''
        | Some m \<Rightarrow> PStr (raw_transported ns pol m))))))"
  by (simp add: generic_extractor_def Let_def extract_common_data_def)

lemma eval_v2_nested:
  "process_file_based_on_format example_fromisoformat doc_v2_nested = Inr (Some record_v2_nested)"
  by code_simp

text \<open>
  C10. Whenever \<open>process_file_based_on_format\<close> returns a record, its \<open>Clave SAT\<close> is a
  string, never \<open>None\<close>, and its \<open>Combustible\<close> is what \<open>map_clave_to_combustible\<close> gives
  for that string: the classification found a merchandise element of the variant below
  the root, so the extractor's search for the first such element finds one.
\<close>

theorem recognised_record_has_sat_key:
  assumes "process_file_based_on_format fi doc = Inr (Some data)"
  shows "\<exists>clave. map_of data ''Clave SAT'' = Some (PStr clave)
           \<and> map_of data ''Combustible'' = Some (map_clave_to_combustible clave)"
proof (cases doc rule: xml_file_cases)
  case (Fails e)
  with assms show ?thesis by (simp add: dispatch_fails)
next
  case (WellFormed r)
  show ?thesis
  proof (cases "classify r")
    case V1
    then have "has_mercancia V1 r" by (auto simp: classify_def split: if_splits)
    then obtain m where "ET_find (NS_CartaPorte20, ''Mercancia'') r = Some m"
      by (auto simp: has_mercancia_find)
    from generic_sat_key [OF this, of DirectAttribute fi] assms show ?thesis
      by (auto simp: WellFormed dispatch_classify V1 format1_generic)
  next
    case V2
    then have "has_mercancia V2 r" by (auto simp: classify_def split: if_splits)
    then obtain m where "ET_find (NS_CartaPorte30, ''Mercancia'') r = Some m"
      by (auto simp: has_mercancia_find)
    from generic_sat_key [OF this, of NestedThenFallback fi] assms show ?thesis
      by (auto simp: WellFormed dispatch_classify V2 format2_generic)
  next
    case V3
    then have "has_mercancia V3 r" by (auto simp: classify_def split: if_splits)
    then obtain m where "ET_find (NS_CartaPorte31, ''Mercancia'') r = Some m"
      by (auto simp: has_mercancia_find)
    from generic_sat_key [OF this, of NestedThenFallback fi] assms show ?thesis
      by (auto simp: WellFormed dispatch_classify V3 format31_generic)
  next
    case Unrecognized
    with assms show ?thesis by (simp add: WellFormed dispatch_classify)
  qed
qed

theorem recognised_record_has_sat_key_witness:
  "process_file_based_on_format example_fromisoformat doc_v2_nested = Inr (Some record_v2_nested)
   \<and> (\<exists>clave. map_of record_v2_nested ''Clave SAT'' = Some (PStr clave)
         \<and> map_of record_v2_nested ''Combustible'' = Some (map_clave_to_combustible clave))"
  using recognised_record_has_sat_key [OF eval_v2_nested] eval_v2_nested by blast

lemma transported_examples:
  "map_sum id (\<lambda>d. map_of d ''Litros Transportada'')
     (process_xml_format1 example_fromisoformat doc_v1) = Inr (Some (PStr ''100.000''))"
  "map_sum id (\<lambda>d. map_of d ''Litros Transportada'')
     (process_xml_format2 example_fromisoformat doc_v2_fallback) = Inr (Some (PStr ''50.000''))"
  "map_sum id (\<lambda>d. map_of d ''Litros Transportada'')
     (process_xml_format2 example_fromisoformat doc_v2_nested) = Inr (Some (PStr ''75.000''))"
  "map_sum id (\<lambda>d. map_of d ''Litros Transportada'')
     (process_xml_format31 example_fromisoformat doc_v3_fallback) = Inr (Some (PStr ''50.000''))"
  "map_sum id (\<lambda>d. map_of d ''Litros Transportada'')
     (process_xml_format31 example_fromisoformat doc_v3_nested) = Inr (Some (PStr ''75.000''))"
  by code_simp+

text \<open>
  C2. The transported quantity of a record is the normalised text of one raw attribute.
  \<open>process_xml_format1\<close> takes the \<open>Cantidad\<close> attribute of the first CartaPorte20
  merchandise element below the root. \<open>process_xml_format2\<close> and \<open>process_xml_format31\<close>
  take the \<open>Cantidad\<close> attribute of the first \<open>CantidadTransporta\<close> element of their
  namespace below the first merchandise element when there is one, and the merchandise
  element's own \<open>Cantidad\<close> otherwise. (Without a merchandise element the quantity is
  that of \<open>"0"\<close>.) An own quantity 50 without a nested element gives \<open>50.000\<close>, and a
  nested quantity 75 gives \<open>75.000\<close>, in both variants.
\<close>

theorem transported_quantity_location:
  "map_sum id (\<lambda>d. map_of d ''Litros Transportada'') (process_xml_format1 fi (WellFormed r)) =
     Inr (Some (PStr (fmt3 (parse_number
       (case ET_find (NS_CartaPorte20, ''Mercancia'') r of
          None \<Rightarrow> PStr ''0''
        | Some m \<Rightarrow> PStr (attrib_get m ''Cantidad'' []))))))
   \<and> map_sum id (\<lambda>d. map_of d ''Litros Transportada'') (process_xml_format2 fi (WellFormed r)) =
     Inr (Some (PStr (fmt3 (parse_number
       (case ET_find (NS_CartaPorte30, ''Mercancia'') r of
          None \<Rightarrow> PStr ''0''
        | Some m \<Rightarrow>
            (case ET_find (NS_CartaPorte30, ''CantidadTransporta'') m of
               Some nested \<Rightarrow> PStr (attrib_get nested ''Cantidad'' [])
             | None \<Rightarrow> PStr (attrib_get m ''Cantidad'' [])))))))
   \<and> map_sum id (\<lambda>d. map_of d ''Litros Transportada'') (process_xml_format31 fi (WellFormed r)) =
     Inr (Some (PStr (fmt3 (parse_number
       (case ET_find (NS_CartaPorte31, ''Mercancia'') r of
          None \<Rightarrow> PStr ''0''
        | Some m \<Rightarrow>
            (case ET_find (NS_CartaPorte31, ''CantidadTransporta'') m of
               Some nested \<Rightarrow> PStr (attrib_get nested ''Cantidad'' [])
             | None \<Rightarrow> PStr (attrib_get m ''Cantidad'' [])))))))
   \<and> map_sum id (\<lambda>d. map_of d ''Litros Transportada'')
        (process_xml_format1 example_fromisoformat doc_v1) = Inr (Some (PStr ''100.000''))
   \<and> map_sum id (\<lambda>d. map_of d ''Litros Transportada'')
        (process_xml_format2 example_fromisoformat doc_v2_fallback) = Inr (Some (PStr ''50.000''))
   \<and> map_sum id (\<lambda>d. map_of d ''Litros Transportada'')
        (process_xml_format2 example_fromisoformat doc_v2_nested) = Inr (Some (PStr ''75.000''))
   \<and> map_sum id (\<lambda>d. map_of d ''Litros Transportada'')
        (process_xml_format31 example_fromisoformat doc_v3_fallback) = Inr (Some (PStr ''50.000''))
   \<and> map_sum id (\<lambda>d. map_of d ''Litros Transportada'')
        (process_xml_format31 example_fromisoformat doc_v3_nested) = Inr (Some (PStr ''75.000''))"
  using generic_transported [of NS_CartaPorte20 DirectAttribute fi r]
    generic_transported [of NS_CartaPorte30 NestedThenFallback fi r]
    generic_transported [of NS_CartaPorte31 NestedThenFallback fi r]
    transported_examples
  by (simp add: format1_generic format2_generic format31_generic raw_transported_def
        split: option.splits)

subsection \<open>The quantity fields of every record\<close>

lemma generic_quantities:
  "map_sum id (\<lambda>d. (map_of d ''Cantidad Litros Facturada'', map_of d ''Litros Transportada'',
        map_of d ''Comparacion'')) (generic_extractor ns pol fi (WellFormed r)) =
     Inr (Some (PStr (fmt3 (billed_value r))), Some (PStr (fmt3 (transported_value ns pol r))),
          Some (PStr (comparison (billed_value r) (transported_value ns pol r))))"
  by (simp add: generic_extractor_def Let_def extract_common_data_def billed_value_def
        transported_value_def del: fmt3.simps)

text \<open>
  C5, as the code has it. For every well-formed document, each extractor returns a
  record whose \<open>Cantidad Litros Facturada\<close> and \<open>Litros Transportada\<close> are strings, never
  \<open>None\<close>: the \<open>.3f\<close> format of the billed and of the transported value, which has exactly
  three decimals when the value is finite and is \<open>inf\<close>, \<open>-inf\<close> or \<open>nan\<close> when the raw
  attribute parses to such a float. \<open>Comparacion\<close> is \<open>Iguales\<close> or \<open>Diferentes\<close>. The three
  fields are written by the normalisation step whatever the raw values were.
\<close>

theorem extractor_quantities_normalised:
  "map_sum id (\<lambda>d. (map_of d ''Cantidad Litros Facturada'', map_of d ''Litros Transportada'',
        map_of d ''Comparacion'')) (process_xml_format1 fi (WellFormed r)) =
     Inr (Some (PStr (fmt3 (billed_value r))),
          Some (PStr (fmt3 (transported_value NS_CartaPorte20 DirectAttribute r))),
          Some (PStr (comparison (billed_value r) (transported_value NS_CartaPorte20 DirectAttribute r))))
   \<and> map_sum id (\<lambda>d. (map_of d ''Cantidad Litros Facturada'', map_of d ''Litros Transportada'',
        map_of d ''Comparacion'')) (process_xml_format2 fi (WellFormed r)) =
     Inr (Some (PStr (fmt3 (billed_value r))),
          Some (PStr (fmt3 (transported_value NS_CartaPorte30 NestedThenFallback r))),
          Some (PStr (comparison (billed_value r) (transported_value NS_CartaPorte30 NestedThenFallback r))))
   \<and> map_sum id (\<lambda>d. (map_of d ''Cantidad Litros Facturada'', map_of d ''Litros Transportada'',
        map_of d ''Comparacion'')) (process_xml_format31 fi (WellFormed r)) =
     Inr (Some (PStr (fmt3 (billed_value r))),
          Some (PStr (fmt3 (transported_value NS_CartaPorte31 NestedThenFallback r))),
          Some (PStr (comparison (billed_value r) (transported_value NS_CartaPorte31 NestedThenFallback r))))
   \<and> is_fixed3 (fmt3 x) = is_finite x
   \<and> (is_finite x \<or> fmt3 x = ''inf'' \<or> fmt3 x = ''-inf'' \<or> fmt3 x = ''nan'')
   \<and> (comparison x y = ''Iguales'' \<or> comparison x y = ''Diferentes'')"
  using generic_quantities [of NS_CartaPorte20 DirectAttribute fi r]
    generic_quantities [of NS_CartaPorte30 NestedThenFallback fi r]
    generic_quantities [of NS_CartaPorte31 NestedThenFallback fi r]
    is_fixed3_fmt3 [of x] fmt3_not_finite [of x] comparison_labels [of x y]
  by (simp only: format1_generic format2_generic format31_generic simp_thms)

text \<open>
  The claim as it is written fails on a document whose billed quantity is the text
  \<open>inf\<close>: the field is \<open>inf\<close>, which has no decimals.
\<close>

theorem quantity_inf_counterexample:
  "map_sum id (\<lambda>d. map_of d ''Cantidad Litros Facturada'')
     (process_xml_format1 example_fromisoformat doc_inf) = Inr (Some (PStr ''inf''))
   \<and> \<not> is_fixed3 ''inf''"
  by code_simp

subsection \<open>The common header\<close>

lemma str_int_months:
  "list_all (\<lambda>(m, s). str_int m = s)
     [(1, ''1''), (2, ''2''), (3, ''3''), (4, ''4''), (5, ''5''), (6, ''6''),
      (7, ''7''), (8, ''8''), (9, ''9''), (10, ''10''), (11, ''11''), (12, ''12'')]"
  by code_simp

lemma header_example:
  "extract_common_data example_fromisoformat
     (Element (NS_CFDI, ''Comprobante'') [(''Fecha'', ''01/05/2023''), (''Folio'', ''18'')] []) =
     [(''FechaEmision'', PNone), (''Periodo'', PStr []), (''Serie'', PStr []), (''Folio'', PStr ''18''),
      (''Clave SAT'', PNone), (''Cantidad Litros Facturada'', PNone), (''Litros Transportada'', PNone),
      (''Combustible'', PNone), (''Comparacion'', PStr [])]"
  "map_of (extract_common_data example_fromisoformat
     (Element (NS_CFDI, ''Comprobante'') [(''Fecha'', ''2023-05-01T10:00:00'')] [])) ''Periodo'' = Some (PStr ''5'')"
  by code_simp+

text \<open>
  C8. \<open>extract_common_data\<close> reads \<open>Fecha\<close>, \<open>Serie\<close> and \<open>Folio\<close> from the attributes of the
  root element, each the empty string when missing. \<open>FechaEmision\<close> is the date when
  \<open>fromisoformat\<close> accepts the text and \<open>None\<close> when it raises \<open>ValueError\<close>; nothing is
  raised. \<open>Periodo\<close> is the month of the date as text (\<open>1\<close> to \<open>12\<close>) when there is a date
  and the empty string otherwise.
\<close>

theorem extract_common_data_header:
  "map_of (extract_common_data fi r) ''FechaEmision'' =
     Some (case fi (attrib_get r ''Fecha'' []) of None \<Rightarrow> PNone | Some d \<Rightarrow> PDateTime d)
   \<and> map_of (extract_common_data fi r) ''Periodo'' =
     Some (PStr (case fi (attrib_get r ''Fecha'' []) of None \<Rightarrow> [] | Some d \<Rightarrow> str_int (month d)))
   \<and> map_of (extract_common_data fi r) ''Serie'' = Some (PStr (attrib_get r ''Serie'' []))
   \<and> map_of (extract_common_data fi r) ''Folio'' = Some (PStr (attrib_get r ''Folio'' []))
   \<and> attrib_get r k [] = (case map_of (attrib r) k of None \<Rightarrow> [] | Some v \<Rightarrow> v)
   \<and> list_all (\<lambda>(m, s). str_int m = s)
     [(1, ''1''), (2, ''2''), (3, ''3''), (4, ''4''), (5, ''5''), (6, ''6''),
      (7, ''7''), (8, ''8''), (9, ''9''), (10, ''10''), (11, ''11''), (12, ''12'')]
   \<and> extract_common_data example_fromisoformat
     (Element (NS_CFDI, ''Comprobante'') [(''Fecha'', ''01/05/2023''), (''Folio'', ''18'')] []) =
     [(''FechaEmision'', PNone), (''Periodo'', PStr []), (''Serie'', PStr []), (''Folio'', PStr ''18''),
      (''Clave SAT'', PNone), (''Cantidad Litros Facturada'', PNone), (''Litros Transportada'', PNone),
      (''Combustible'', PNone), (''Comparacion'', PStr [])]"
  using str_int_months header_example(1)
  by (simp add: extract_common_data_def Let_def attrib_get_def split: option.splits)

subsection \<open>Exceptions\<close>

lemma parse_failures:
  "(ET_parse doc = Inl e) =
     (doc = NotWellFormed \<and> e = ParseError \<or> doc = UnknownEncoding \<and> e = LookupError
      \<or> doc = MultiByteEncoding \<and> e = ValueError)"
  by (cases doc) auto

lemma extractor_errors:
  "(generic_extractor ns pol fi doc = Inl e) = (ET_parse doc = Inl e)"
proof (cases doc rule: xml_file_cases)
  case (Fails e')
  then show ?thesis by (simp add: generic_fails)
next
  case (WellFormed r)
  with generic_wellformed [of ns pol fi r] show ?thesis by auto
qed

lemma identify_format_errors: "(identify_format doc = Inl e) = (ET_parse doc = Inl e)"
proof (cases doc rule: xml_file_cases)
  case (Fails e')
  then show ?thesis by (simp add: identify_format_fails)
next
  case (WellFormed r)
  then show ?thesis by (simp add: identify_format_classify)
qed

lemma dispatch_errors:
  "(process_file_based_on_format fi doc = Inl e) = (ET_parse doc = Inl e)"
proof (cases doc rule: xml_file_cases)
  case (Fails e')
  then show ?thesis by (simp add: dispatch_fails)
next
  case (WellFormed r)
  show ?thesis
    using generic_wellformed [of NS_CartaPorte20 DirectAttribute fi r]
      generic_wellformed [of NS_CartaPorte30 NestedThenFallback fi r]
      generic_wellformed [of NS_CartaPorte31 NestedThenFallback fi r]
    unfolding WellFormed dispatch_classify
    by (cases "classify r") (auto simp: format1_generic format2_generic format31_generic)
qed

lemma generic_nonempty: "generic_extractor ns pol fi doc \<noteq> Inr []"
  by (cases doc) (auto simp: generic_extractor_def Let_def)

lemma dispatch_nonempty: "process_file_based_on_format fi doc \<noteq> Inr (Some [])"
proof (cases doc rule: xml_file_cases)
  case (Fails e')
  then show ?thesis by (simp add: dispatch_fails)
next
  case (WellFormed r)
  show ?thesis
    using generic_nonempty [of NS_CartaPorte20 DirectAttribute fi doc]
      generic_nonempty [of NS_CartaPorte30 NestedThenFallback fi doc]
      generic_nonempty [of NS_CartaPorte31 NestedThenFallback fi doc]
    unfolding WellFormed dispatch_classify
    by (cases "classify r")
       (auto simp: format1_generic format2_generic format31_generic map_sum_def split: sum.splits)
qed

lemma process_loop_eq:
  "process_loop fi pdfs files all_data printed =
     (all_data @ concat (map (rows_of fi pdfs) files), printed @ concat (map (printed_of fi) files))"
proof (induction files arbitrary: all_data printed)
  case Nil
  then show ?case by simp
next
  case (Cons f files)
  obtain p doc where f: "f = (p, doc)" by (cases f)
  show ?case
    using dispatch_nonempty [of fi doc]
    by (simp add: f Cons rows_of_def printed_of_def Let_def split: sum.splits option.splits)
qed

lemma printed_of_parse:
  "printed_of fi (path, doc) = (case ET_parse doc of Inl err \<Rightarrow> [(path, err)] | Inr r \<Rightarrow> [])"
proof (cases "ET_parse doc")
  case (Inl err)
  then show ?thesis by (simp add: printed_of_def dispatch_fails)
next
  case (Inr r)
  then have "\<And>err. process_file_based_on_format fi doc \<noteq> Inl err"
    by (simp add: dispatch_errors)
  with Inr show ?thesis by (simp add: printed_of_def split: sum.splits)
qed

lemma rows_of_parse:
  "rows_of fi pdfs (path, doc) =
     (case ET_parse doc of Inl err \<Rightarrow> [] | Inr r \<Rightarrow> rows_of fi pdfs (path, WellFormed r))"
proof (cases doc rule: xml_file_cases)
  case (Fails err)
  then show ?thesis by (simp add: rows_of_def dispatch_fails)
next
  case (WellFormed r)
  then show ?thesis by simp
qed

lemma printed_lines:
  "concat (map (printed_of fi) files) =
     concat (map (\<lambda>(path, doc). case ET_parse doc of Inl err \<Rightarrow> [(path, err)] | Inr r \<Rightarrow> []) files)"
  by (induction files) (auto simp: printed_of_parse)

lemma eval_bad_quantities:
  "process_file_based_on_format example_fromisoformat doc_bad_quantities = Inr (Some
     [(''FechaEmision'', PNone), (''Periodo'', PStr []), (''Serie'', PStr []), (''Folio'', PStr ''18''),
      (''Clave SAT'', PStr []), (''Cantidad Litros Facturada'', PStr ''0.000''),
      (''Litros Transportada'', PStr ''0.000''), (''Combustible'', PNone),
      (''Comparacion'', PStr ''Iguales'')])"
  by code_simp

lemma eval_encoding_batch:
  "process_uploaded_files example_fromisoformat example_pdf_files encoding_batch =
     ([(''./temp_files/a.xml'', LookupError), (''./temp_files/c.xml'', ValueError)],
      Inr [[(''Periodo'', PStr ''1''), (''Serie'', PStr ''CP''), (''Folio'', PStr ''17''),
            (''Clave SAT'', PStr ''15101515''), (''Cantidad Litros Facturada'', PFloat (Finite 100)),
            (''Litros Transportada'', PFloat (Finite 100)), (''Combustible'', PStr ''premium''),
            (''Comparacion'', PStr ''Iguales''), (''XML_File'', PStr ''b.xml''),
            (''PDF Asociado'', PStr ''b.pdf'')]])"
  by code_simp

lemma fmt3_zero: "fmt3 (Finite 0) = ''0.000''" by code_simp

text \<open>
  C4, as stated: a parse failure of a file that is not well-formed is the only exception
  raised by \<open>identify_format\<close>, the extractors and \<open>process_file_based_on_format\<close>. It is
  not: \<open>ET.parse\<close> raises \<open>LookupError\<close> on a file that declares an encoding Python does not
  know and \<open>ValueError\<close> on a file in a multi-byte encoding, neither of which is a
  \<open>ParseError\<close>, and both leave \<open>identify_format\<close> and \<open>process_file_based_on_format\<close>.
\<close>

theorem parse_error_not_only_exception:
  "identify_format UnknownEncoding = Inl LookupError
   \<and> identify_format MultiByteEncoding = Inl ValueError
   \<and> process_xml_format1 example_fromisoformat MultiByteEncoding = Inl ValueError
   \<and> process_file_based_on_format example_fromisoformat UnknownEncoding = Inl LookupError
   \<and> LookupError \<noteq> ParseError \<and> ValueError \<noteq> ParseError
   \<and> UnknownEncoding \<noteq> NotWellFormed \<and> MultiByteEncoding \<noteq> NotWellFormed"
  by (simp add: identify_format_def process_file_based_on_format_def process_xml_format1_def
        ET_parse_def)

text \<open>
  C4, amended. \<open>identify_format\<close>, the three extractors and \<open>process_file_based_on_format\<close>
  raise exactly when \<open>ET.parse\<close> raises on the file, and the same exception: \<open>ParseError\<close>
  for a file that is not well-formed, \<open>LookupError\<close> for an unknown encoding, \<open>ValueError\<close>
  for a multi-byte encoding. The loop of \<open>process_uploaded_files\<close> catches each of them: the
  file contributes a printed line with its path and the exception and no row, and the
  files before and after it are processed as without it; nothing else is printed. The
  normalisation never raises: a quantity that is missing (\<open>None\<close> or the empty string) or
  that \<open>float\<close> rejects counts as \<open>0.0\<close> and is written \<open>0.000\<close>.
\<close>

theorem parse_failure_only_exception:
  "(identify_format doc = Inl e) = (ET_parse doc = Inl e)
   \<and> (process_xml_format1 fi doc = Inl e) = (ET_parse doc = Inl e)
   \<and> (process_xml_format2 fi doc = Inl e) = (ET_parse doc = Inl e)
   \<and> (process_xml_format31 fi doc = Inl e) = (ET_parse doc = Inl e)
   \<and> (process_file_based_on_format fi doc = Inl e) = (ET_parse doc = Inl e)
   \<and> (ET_parse doc = Inl e) =
       (doc = NotWellFormed \<and> e = ParseError \<or> doc = UnknownEncoding \<and> e = LookupError
        \<or> doc = MultiByteEncoding \<and> e = ValueError)
   \<and> process_loop fi pdfs (before @ (path, doc) # rest) [] [] =
       (fst (process_loop fi pdfs before [] []) @ rows_of fi pdfs (path, doc)
          @ fst (process_loop fi pdfs rest [] []),
        snd (process_loop fi pdfs before [] []) @ printed_of fi (path, doc)
          @ snd (process_loop fi pdfs rest [] []))
   \<and> printed_of fi (path, doc) = (case ET_parse doc of Inl err \<Rightarrow> [(path, err)] | Inr r \<Rightarrow> [])
   \<and> rows_of fi pdfs (path, doc) =
       (case ET_parse doc of Inl err \<Rightarrow> [] | Inr r \<Rightarrow> rows_of fi pdfs (path, WellFormed r))
   \<and> process_loop fi pdfs (before @ (path, NotWellFormed) # rest) [] [] =
       (fst (process_loop fi pdfs before [] []) @ fst (process_loop fi pdfs rest [] []),
        snd (process_loop fi pdfs before [] []) @ (path, ParseError) # snd (process_loop fi pdfs rest [] []))
   \<and> fst (process_uploaded_files fi pdfs files) =
       concat (map (\<lambda>(path, doc). case ET_parse doc of Inl err \<Rightarrow> [(path, err)] | Inr r \<Rightarrow> []) files)
   \<and> format_and_compare_liters a b =
       Inr (fmt3 (parse_number a), fmt3 (parse_number b), comparison (parse_number a) (parse_number b))
   \<and> fmt3 (parse_number v) = (case py_float v of Inl err \<Rightarrow> ''0.000'' | Inr x \<Rightarrow> fmt3 x)
   \<and> py_float PNone = Inl TypeError \<and> py_float (PStr []) = Inl ValueError
   \<and> process_file_based_on_format example_fromisoformat doc_bad_quantities = Inr (Some
      [(''FechaEmision'', PNone), (''Periodo'', PStr []), (''Serie'', PStr []), (''Folio'', PStr ''18''),
       (''Clave SAT'', PStr []), (''Cantidad Litros Facturada'', PStr ''0.000''),
       (''Litros Transportada'', PStr ''0.000''), (''Combustible'', PNone),
       (''Comparacion'', PStr ''Iguales'')])
   \<and> process_uploaded_files example_fromisoformat example_pdf_files encoding_batch =
       ([(''./temp_files/a.xml'', LookupError), (''./temp_files/c.xml'', ValueError)],
        Inr [[(''Periodo'', PStr ''1''), (''Serie'', PStr ''CP''), (''Folio'', PStr ''17''),
              (''Clave SAT'', PStr ''15101515''), (''Cantidad Litros Facturada'', PFloat (Finite 100)),
              (''Litros Transportada'', PFloat (Finite 100)), (''Combustible'', PStr ''premium''),
              (''Comparacion'', PStr ''Iguales''), (''XML_File'', PStr ''b.xml''),
              (''PDF Asociado'', PStr ''b.pdf'')]])"
proof -
  have loop: "process_loop fi pdfs (before @ (path, doc) # rest) [] [] =
       (fst (process_loop fi pdfs before [] []) @ rows_of fi pdfs (path, doc)
          @ fst (process_loop fi pdfs rest [] []),
        snd (process_loop fi pdfs before [] []) @ printed_of fi (path, doc)
          @ snd (process_loop fi pdfs rest [] []))" for doc
    by (simp add: process_loop_eq)
  have bad: "process_loop fi pdfs (before @ (path, NotWellFormed) # rest) [] [] =
       (fst (process_loop fi pdfs before [] []) @ fst (process_loop fi pdfs rest [] []),
        snd (process_loop fi pdfs before [] []) @ (path, ParseError) # snd (process_loop fi pdfs rest [] []))"
    by (simp add: process_loop_eq rows_of_def printed_of_def dispatch_fails)
  have printed: "fst (process_uploaded_files fi pdfs files) =
       concat (map (\<lambda>(path, doc). case ET_parse doc of Inl err \<Rightarrow> [(path, err)] | Inr r \<Rightarrow> []) files)"
    using printed_lines [of fi files] by (simp add: process_uploaded_files_def process_loop_eq)
  have coerced: "fmt3 (parse_number v) = (case py_float v of Inl err \<Rightarrow> ''0.000'' | Inr x \<Rightarrow> fmt3 x)"
    by (simp add: parse_number_def fmt3_zero del: fmt3.simps split: sum.splits)
  have empty: "py_float (PStr []) = Inl ValueError" by code_simp
  have errs: "(identify_format doc = Inl e) = (ET_parse doc = Inl e)"
    "(process_xml_format1 fi doc = Inl e) = (ET_parse doc = Inl e)"
    "(process_xml_format2 fi doc = Inl e) = (ET_parse doc = Inl e)"
    "(process_xml_format31 fi doc = Inl e) = (ET_parse doc = Inl e)"
    "(process_file_based_on_format fi doc = Inl e) = (ET_parse doc = Inl e)"
    by (simp_all add: identify_format_errors dispatch_errors format1_generic format2_generic
          format31_generic extractor_errors)
  have "py_float PNone = Inl TypeError" by simp
  with errs parse_failures [of doc e] loop [of doc] printed_of_parse [of fi path doc]
    rows_of_parse [of fi pdfs path doc] bad printed format_and_compare_eq [of a b] coerced empty
    eval_bad_quantities eval_encoding_batch
  show ?thesis by blast
qed

subsection \<open>The three extractors compared\<close>

lemma rename_sel [simp]:
  "tag (rename_ns f e) = (f (fst (tag e)), snd (tag e))"
  "attrib (rename_ns f e) = attrib e"
  "children (rename_ns f e) = map (rename_ns f) (children e)"
  by (cases e; simp)+

lemma iter_rename: "iter (rename_ns f e) = map (rename_ns f) (iter e)"
proof (induction e)
  case (Element t a cs)
  then have m: "map (iter \<circ> rename_ns f) cs = map (map (rename_ns f) \<circ> iter) cs"
    by (intro map_cong refl) simp
  show ?case by (simp add: map_concat m)
qed

lemma findall_rename:
  assumes "inj f"
  shows "ET_findall (f ns, n) (rename_ns f e) = map (rename_ns f) (ET_findall (ns, n) e)"
proof -
  have t: "\<And>x. (tag (rename_ns f x) = (f ns, n)) = (tag x = (ns, n))"
    using assms by (auto simp: inj_eq prod_eq_iff)
  have c: "concat (map iter (children (rename_ns f e))) =
      map (rename_ns f) (concat (map iter (children e)))"
    by (simp add: iter_rename map_concat comp_def)
  show ?thesis
    unfolding ET_findall_def c filter_map comp_def t ..
qed

lemma find_rename:
  assumes "inj f"
  shows "ET_find (f ns, n) (rename_ns f e) = map_option (rename_ns f) (ET_find (ns, n) e)"
  by (simp add: ET_find_def findall_rename [OF assms] split: list.splits)

lemma attrib_get_rename [simp]: "attrib_get (rename_ns f e) k d = attrib_get e k d"
  by (simp add: attrib_get_def)

lemma header_rename [simp]: "extract_common_data fi (rename_ns f r) = extract_common_data fi r"
  by (simp add: extract_common_data_def)

lemma raw_transported_rename:
  assumes "inj f"
  shows "raw_transported (f ns) pol (rename_ns f m) = raw_transported ns pol m"
  by (cases pol; cases "ET_find (ns, ''CantidadTransporta'') m")
     (simp_all add: raw_transported_def find_rename [OF assms])

lemma generic_rename:
  assumes "inj f" and "f NS_CFDI = NS_CFDI"
  shows "generic_extractor (f ns) pol fi (rename_file f doc) = generic_extractor ns pol fi doc"
proof (cases doc rule: xml_file_cases)
  case (Fails e)
  then have "rename_file f doc = doc" by (cases doc) (simp_all add: rename_file_def)
  with Fails show ?thesis by (simp add: generic_fails)
next
  case (WellFormed r)
  have c: "ET_find (NS_CFDI, ''Concepto'') (rename_ns f r) =
      map_option (rename_ns f) (ET_find (NS_CFDI, ''Concepto'') r)"
    using find_rename [OF assms(1), of NS_CFDI "''Concepto''" r] by (simp add: assms(2))
  show ?thesis
    by (cases "ET_find (NS_CFDI, ''Concepto'') r"; cases "ET_find (ns, ''Mercancia'') r")
       (simp_all add: WellFormed rename_file_def generic_extractor_def Let_def c
          find_rename [OF assms(1)] raw_transported_rename [OF assms(1)] del: fmt3.simps)
qed

lemma swap_ns_left: "swap_ns a b a = b"
  by (simp add: swap_ns_def)

lemma inj_swap_ns: "inj (swap_ns a b)"
  by (auto simp: inj_def swap_ns_def split: if_splits)

lemma swap_ns_cfdi:
  "swap_ns NS_CartaPorte30 NS_CartaPorte31 NS_CFDI = NS_CFDI"
  "swap_ns NS_CartaPorte30 NS_CartaPorte20 NS_CFDI = NS_CFDI"
  "swap_ns NS_CartaPorte31 NS_CartaPorte20 NS_CFDI = NS_CFDI"
  by (simp_all add: swap_ns_def NS_CFDI_def NS_CartaPorte20_def NS_CartaPorte30_def NS_CartaPorte31_def)

lemma generic_policy_other_fields:
  "map_sum id other_fields (generic_extractor ns DirectAttribute fi doc) =
   map_sum id other_fields (generic_extractor ns NestedThenFallback fi doc)"
  by (cases doc)
     (simp_all add: generic_extractor_def Let_def other_fields_def extract_common_data_def
        del: fmt3.simps)

text \<open>
  C7. Each extractor is the one generic extractor of the specification, at its namespace
  and policy: \<open>process_xml_format1\<close> at CartaPorte20 with the direct attribute,
  \<open>process_xml_format2\<close> and \<open>process_xml_format31\<close> at CartaPorte30 and CartaPorte31 with
  the nested element first; writing \<open>or '0'\<close> or \<open>data.get(key, '0')\<close> makes no difference.
  On two documents that differ only in that one has CartaPorte31 where the other has
  CartaPorte30, \<open>process_xml_format31\<close> and \<open>process_xml_format2\<close> return the same result,
  and \<open>process_xml_format1\<close> on the document renamed to CartaPorte20 agrees with each
  of them on every field but \<open>Litros Transportada\<close> and \<open>Comparacion\<close>.
\<close>

theorem extractors_same_function:
  "process_xml_format1 fi doc = generic_extractor NS_CartaPorte20 DirectAttribute fi doc
   \<and> process_xml_format2 fi doc = generic_extractor NS_CartaPorte30 NestedThenFallback fi doc
   \<and> process_xml_format31 fi doc = generic_extractor NS_CartaPorte31 NestedThenFallback fi doc
   \<and> process_xml_format31 fi (rename_file (swap_ns NS_CartaPorte30 NS_CartaPorte31) doc) =
       process_xml_format2 fi doc
   \<and> map_sum id other_fields
        (process_xml_format1 fi (rename_file (swap_ns NS_CartaPorte30 NS_CartaPorte20) doc)) =
       map_sum id other_fields (process_xml_format2 fi doc)
   \<and> map_sum id other_fields
        (process_xml_format1 fi (rename_file (swap_ns NS_CartaPorte31 NS_CartaPorte20) doc)) =
       map_sum id other_fields (process_xml_format31 fi doc)"
proof -
  have a: "generic_extractor NS_CartaPorte31 pol fi (rename_file (swap_ns NS_CartaPorte30 NS_CartaPorte31) doc)
      = generic_extractor NS_CartaPorte30 pol fi doc" for pol
    using generic_rename [OF inj_swap_ns swap_ns_cfdi(1), of NS_CartaPorte30 pol fi doc]
    by (simp only: swap_ns_left)
  have b: "generic_extractor NS_CartaPorte20 pol fi (rename_file (swap_ns NS_CartaPorte30 NS_CartaPorte20) doc)
      = generic_extractor NS_CartaPorte30 pol fi doc" for pol
    using generic_rename [OF inj_swap_ns swap_ns_cfdi(2), of NS_CartaPorte30 pol fi doc]
    by (simp only: swap_ns_left)
  have c: "generic_extractor NS_CartaPorte20 pol fi (rename_file (swap_ns NS_CartaPorte31 NS_CartaPorte20) doc)
      = generic_extractor NS_CartaPorte31 pol fi doc" for pol
    using generic_rename [OF inj_swap_ns swap_ns_cfdi(3), of NS_CartaPorte31 pol fi doc]
    by (simp only: swap_ns_left)
  show ?thesis
    by (simp only: format1_generic format2_generic format31_generic a b c
          generic_policy_other_fields simp_thms)
qed

section \<open>Properties of pdf_handler.py\<close>


























end
